theory Spec2Isabelle
  imports Main
begin

section \<open>Python values, exceptions and the observable trace\<close>

text \<open>
  The module \<^verbatim>\<open>reana_client/cli/files.py\<close> holds three click commands, \<^verbatim>\<open>get_files\<close>
  (``list''), \<^verbatim>\<open>download_files\<close> and \<^verbatim>\<open>upload_files\<close>. Each one logs its invocation, checks
  the access token and the workflow, calls one method of the injected client and reports
  the result. The embedding makes every effect explicit: a command is a function from its
  arguments and the world (remote service and local disk) to an outcome, the new world and
  the list of events it produced, in order.

  Values of parameters and of the fields of a file record are the Python values that can
  occur there: \<^verbatim>\<open>None\<close>, booleans, integers, strings and tuples of strings (click's
  \<^verbatim>\<open>multiple=True\<close> and \<^verbatim>\<open>nargs=-1\<close>).
\<close>

type_synonym bytes = "char list"

datatype pyval = PyNone | PyBool bool | PyInt int | PyStr string | PyTuple "string list"

text \<open>Decimal digits of a natural number, as \<^verbatim>\<open>str\<close> prints an \<^verbatim>\<open>int\<close>.\<close>

definition digit_char :: "nat \<Rightarrow> char" where
  "digit_char d = ''0123456789'' ! d"

function str_nat :: "nat \<Rightarrow> string" where
  "str_nat n = (if n < 10 then [digit_char n] else str_nat (n div 10) @ [digit_char (n mod 10)])"
  by pat_completeness auto
termination
  by (relation "measure id") auto

declare str_nat.simps [simp del]

definition str_int :: "int \<Rightarrow> string" where
  "str_int i = (if i < 0 then CHR ''-'' # str_nat (nat (- i)) else str_nat (nat i))"

text \<open>
  \<^verbatim>\<open>', '.join\<close> over a list of strings, and \<^verbatim>\<open>str\<close> of a value. \<^verbatim>\<open>repr\<close> of a string (quoting and
  escaping) is Python's own and is taken as the parameter \<open>repr\<close>.
\<close>

fun join_comma :: "string list \<Rightarrow> string" where
  "join_comma [] = []"
| "join_comma [x] = x"
| "join_comma (x # y # ys) = x @ '', '' @ join_comma (y # ys)"

definition str_tuple :: "(string \<Rightarrow> string) \<Rightarrow> string list \<Rightarrow> string" where
  "str_tuple repr xs =
     (case xs of
        [x] \<Rightarrow> ''('' @ repr x @ '',)''
      | _ \<Rightarrow> ''('' @ join_comma (map repr xs) @ '')'')"

fun py_str :: "(string \<Rightarrow> string) \<Rightarrow> pyval \<Rightarrow> string" where
  "py_str repr PyNone = ''None''"
| "py_str repr (PyBool b) = (if b then ''True'' else ''False'')"
| "py_str repr (PyInt i) = str_int i"
| "py_str repr (PyStr s) = s"
| "py_str repr (PyTuple xs) = str_tuple repr xs"

text \<open>
  Truthiness of an optional string, as \<^verbatim>\<open>if not access_token\<close> and \<^verbatim>\<open>if workflow\<close> test it:
  \<^verbatim>\<open>None\<close> and the empty string are false. \<open>nonempty\<close> returns the string when it is true.
\<close>

definition nonempty :: "string option \<Rightarrow> string option" where
  "nonempty v = (case v of None \<Rightarrow> None | Some s \<Rightarrow> if s = [] then None else Some s)"

text \<open>
  A click option with a default: the flag's value when given, else the default, which the
  module reads from the environment when it is imported
  (\<^verbatim>\<open>default=os.environ.get('REANA_ACCESS_TOKEN', None)\<close>).
\<close>

definition option_value :: "string option \<Rightarrow> string option \<Rightarrow> string option" where
  "option_value flag environ = (case flag of Some v \<Rightarrow> Some v | None \<Rightarrow> environ)"

text \<open>
  An exception value is an instance of a subclass of \<^verbatim>\<open>Exception\<close>: its class, as far as
  the \<^verbatim>\<open>except\<close> clauses of the module tell classes apart, and \<^verbatim>\<open>str(e)\<close>. \<^verbatim>\<open>OSError\<close> stands
  for \<^verbatim>\<open>OSError\<close> and its subclasses (\<^verbatim>\<open>FileNotFoundError\<close>, \<^verbatim>\<open>PermissionError\<close>,
  \<^verbatim>\<open>ConnectionError\<close>, ...), \<^verbatim>\<open>FileUploadError\<close> for the class of \<^verbatim>\<open>reana_client.errors\<close>
  (a direct subclass of \<^verbatim>\<open>Exception\<close>), \<^verbatim>\<open>OtherException\<close> for every other subclass of
  \<^verbatim>\<open>Exception\<close> (\<^verbatim>\<open>KeyError\<close>, \<^verbatim>\<open>AttributeError\<close>, ...). The system-exiting exceptions
  (\<^verbatim>\<open>KeyboardInterrupt\<close>, \<^verbatim>\<open>SystemExit\<close> raised inside a collaborator) are not instances of
  \<^verbatim>\<open>Exception\<close> and are not modelled.
\<close>

datatype exn_class = OSError | FileUploadError | OtherException

record exn =
  exn_class :: exn_class
  exn_str :: string

datatype pyclass = Cls_OSError | Cls_FileUploadError | Cls_Exception

fun isinstance :: "exn \<Rightarrow> pyclass \<Rightarrow> bool" where
  "isinstance e Cls_OSError = (exn_class e = OSError)"
| "isinstance e Cls_FileUploadError = (exn_class e = FileUploadError)"
| "isinstance e Cls_Exception = True"

text \<open>
  The events a command produces: messages handed to \<^verbatim>\<open>logging\<close>, lines printed with
  \<^verbatim>\<open>click.echo\<close> (with the stream and the colour of \<^verbatim>\<open>click.style\<close>), calls of the client's
  methods with their arguments, and the two operations on the local disk.
\<close>

datatype stream = Stdout | Stderr

datatype colour = Red | Green

datatype call =
    GetFiles string string
  | DownloadFile string string string
  | UploadToServer string string string

datatype event =
    LogDebug string
  | LogInfo string
  | Echo stream "colour option" string
  | Remote call
  | Makedirs string
  | OpenWrite string bytes

text \<open>
  How a command ends: it returns, it leaves the process with \<^verbatim>\<open>sys.exit(n)\<close>, or an
  exception no \<^verbatim>\<open>except\<close> clause matched leaves the command.
\<close>

datatype outcome = Returned | Exit int | Raised exn

text \<open>The exit status of the process when click runs the command as a program.\<close>

fun exit_status :: "outcome \<Rightarrow> int" where
  "exit_status Returned = 0"
| "exit_status (Exit n) = n"
| "exit_status (Raised e) = 1"

fun remote_calls :: "event list \<Rightarrow> call list" where
  "remote_calls [] = []"
| "remote_calls (Remote c # es) = c # remote_calls es"
| "remote_calls (_ # es) = remote_calls es"

fun echoed :: "stream \<Rightarrow> event list \<Rightarrow> (colour option \<times> string) list" where
  "echoed s [] = []"
| "echoed s (Echo s' c m # es) = (if s' = s then (c, m) # echoed s es else echoed s es)"
| "echoed s (_ # es) = echoed s es"

fun log_messages :: "event list \<Rightarrow> string list" where
  "log_messages [] = []"
| "log_messages (LogDebug m # es) = m # log_messages es"
| "log_messages (LogInfo m # es) = m # log_messages es"
| "log_messages (_ # es) = log_messages es"

fun is_prefix :: "string \<Rightarrow> string \<Rightarrow> bool" where
  "is_prefix [] s = True"
| "is_prefix (c # cs) [] = False"
| "is_prefix (c # cs) (d # ds) = (c = d \<and> is_prefix cs ds)"

fun occurs_in :: "string \<Rightarrow> string \<Rightarrow> bool" where
  "occurs_in sub [] = (sub = [])"
| "occurs_in sub (c # cs) = (is_prefix sub (c # cs) \<or> occurs_in sub cs)"

section \<open>The local disk\<close>

text \<open>
  The part of \<^verbatim>\<open>os\<close>, \<^verbatim>\<open>os.path\<close> (posixpath) and \<^verbatim>\<open>open\<close> that \<^verbatim>\<open>download_files\<close> uses. Paths
  are the strings the program builds; the disk is the set of directories, the content of
  each regular file, and the set of paths at which the system refuses to create or write
  (permissions, a read-only medium, a full disk). Paths are compared as strings: \<^verbatim>\<open>.\<close>,
  \<^verbatim>\<open>..\<close>, repeated separators and links are not resolved.
\<close>

record filesystem =
  fs_dirs :: "string set"
  fs_files :: "string \<rightharpoonup> bytes"
  fs_denied :: "string set"

definition sep :: char where
  "sep = CHR ''/''"

definition rstrip_sep :: "string \<Rightarrow> string" where
  "rstrip_sep s = rev (dropWhile (\<lambda>c. c = sep) (rev s))"

text \<open>
  \<^verbatim>\<open>posixpath.join(a, b)\<close>: an absolute \<open>b\<close> replaces \<open>a\<close>; otherwise \<open>b\<close> is appended, after a
  separator unless \<open>a\<close> is empty or ends with one.
\<close>

definition os_path_join :: "string \<Rightarrow> string \<Rightarrow> string" where
  "os_path_join a b =
     (if b \<noteq> [] \<and> hd b = sep then b
      else if a = [] \<or> last a = sep then a @ b
      else a @ [sep] @ b)"

text \<open>
  \<^verbatim>\<open>posixpath.split(p)\<close>: the text up to the last separator and the text after it; trailing
  separators of the head are stripped unless it consists of separators only.
\<close>

definition os_path_split :: "string \<Rightarrow> string \<times> string" where
  "os_path_split p =
     (let head = rev (dropWhile (\<lambda>c. c \<noteq> sep) (rev p));
          tail = rev (takeWhile (\<lambda>c. c \<noteq> sep) (rev p))
      in (if head \<noteq> [] \<and> \<not> list_all (\<lambda>c. c = sep) head then rstrip_sep head else head, tail))"

definition os_path_dirname :: "string \<Rightarrow> string" where
  "os_path_dirname p = fst (os_path_split p)"

definition os_path_exists :: "filesystem \<Rightarrow> string \<Rightarrow> bool" where
  "os_path_exists fs p = (p \<in> fs_dirs fs \<or> fs_files fs p \<noteq> None)"

datatype errno = ENOENT | EACCES | EEXIST | ENOTDIR | EISDIR

fun strerror :: "errno \<Rightarrow> string" where
  "strerror ENOENT = ''[Errno 2] No such file or directory: ''"
| "strerror EACCES = ''[Errno 13] Permission denied: ''"
| "strerror EEXIST = ''[Errno 17] File exists: ''"
| "strerror ENOTDIR = ''[Errno 20] Not a directory: ''"
| "strerror EISDIR = ''[Errno 21] Is a directory: ''"

definition os_error :: "(string \<Rightarrow> string) \<Rightarrow> errno \<Rightarrow> string \<Rightarrow> exn" where
  "os_error repr n p = \<lparr>exn_class = OSError, exn_str = strerror n @ repr p\<rparr>"

text \<open>
  An operation on the disk returns the error it raises, if any (the \<^verbatim>\<open>errno\<close> and the path
  of the \<^verbatim>\<open>OSError\<close>), and the disk it leaves.

  \<^verbatim>\<open>os.mkdir(name)\<close>: one new directory, whose parent must be a directory.
\<close>

definition os_mkdir :: "filesystem \<Rightarrow> string \<Rightarrow> (errno \<times> string) option \<times> filesystem" where
  "os_mkdir fs name =
     (let parent = os_path_dirname name in
      if name = [] then (Some (ENOENT, name), fs)
      else if os_path_exists fs name then (Some (EEXIST, name), fs)
      else if parent \<noteq> [] \<and> fs_files fs parent \<noteq> None then (Some (ENOTDIR, name), fs)
      else if parent \<noteq> [] \<and> parent \<notin> fs_dirs fs then (Some (ENOENT, name), fs)
      else if name \<in> fs_denied fs then (Some (EACCES, name), fs)
      else (None, fs\<lparr>fs_dirs := insert name (fs_dirs fs)\<rparr>))"

text \<open>
  \<^verbatim>\<open>os.makedirs(name)\<close> with \<^verbatim>\<open>exist_ok=False\<close>. It splits \<open>name\<close> (a second time when the
  tail is empty); when head and tail are not empty and the head does not exist, it makes
  the head first by a recursive call, of which a \<^verbatim>\<open>FileExistsError\<close> is ignored and any
  other error raised, and returns at once when the tail is \<^verbatim>\<open>.\<close>; then it makes \<open>name\<close>
  with \<^verbatim>\<open>os.mkdir\<close>.
\<close>

definition makedirs_split :: "string \<Rightarrow> string \<times> string" where
  "makedirs_split name =
     (let (head, tail) = os_path_split name
      in if tail = [] then os_path_split head else (head, tail))"

lemma os_path_split_length:
  "length (fst (os_path_split p)) + length (snd (os_path_split p)) \<le> length p"
proof -
  let ?h = "rev (dropWhile (\<lambda>c. c \<noteq> sep) (rev p))"
  let ?t = "rev (takeWhile (\<lambda>c. c \<noteq> sep) (rev p))"
  have whole: "length ?h + length ?t = length p"
    by (metis add.commute length_append length_rev takeWhile_dropWhile_id)
  have stripped: "length (rstrip_sep ?h) \<le> length ?h"
    using length_dropWhile_le[of "\<lambda>c. c = sep" "rev ?h"] by (simp add: rstrip_sep_def)
  show ?thesis
    using whole stripped by (auto simp: os_path_split_def Let_def)
qed

lemma makedirs_split_shorter:
  "makedirs_split name = (h, t) \<Longrightarrow> t \<noteq> [] \<Longrightarrow> length h < length name"
  using os_path_split_length[of name] os_path_split_length[of "fst (os_path_split name)"]
    length_greater_0_conv[of t]
  by (auto simp del: length_greater_0_conv simp: makedirs_split_def Let_def
      split: prod.splits if_splits)

function os_makedirs :: "filesystem \<Rightarrow> string \<Rightarrow> (errno \<times> string) option \<times> filesystem" where
  "os_makedirs fs name =
     (case makedirs_split name of (head, tail) \<Rightarrow>
        if head \<noteq> [] \<and> tail \<noteq> [] \<and> \<not> os_path_exists fs head then
          (case os_makedirs fs head of
             (Some (n, p), fs') \<Rightarrow>
               if n = EEXIST then (if tail = ''.'' then (None, fs') else os_mkdir fs' name)
               else (Some (n, p), fs')
           | (None, fs') \<Rightarrow> if tail = ''.'' then (None, fs') else os_mkdir fs' name)
        else os_mkdir fs name)"
  by pat_completeness auto
termination
proof (relation "measure (\<lambda>(fs, name). length name)")
  show "wf (measure (\<lambda>(fs :: filesystem, name :: string). length name))"
    by simp
next
  fix fs :: filesystem and name x y :: string
  assume "(x, y) = makedirs_split name" and "x \<noteq> [] \<and> y \<noteq> [] \<and> \<not> os_path_exists fs x"
  then show "((fs, x), (fs, name)) \<in> measure (\<lambda>(fs, name). length name)"
    using makedirs_split_shorter[of name x y] by simp
qed

declare os_makedirs.simps [simp del]

text \<open>
  \<^verbatim>\<open>with open(path, 'wb') as f: f.write(content)\<close>: the file is created, or truncated when
  it exists, and holds \<open>content\<close> afterwards. The parent must be a directory and the path
  must not name one.
\<close>

definition open_wb_write ::
  "filesystem \<Rightarrow> string \<Rightarrow> bytes \<Rightarrow> (errno \<times> string) option \<times> filesystem" where
  "open_wb_write fs path content =
     (let parent = os_path_dirname path in
      if path = [] then (Some (ENOENT, path), fs)
      else if path \<in> fs_dirs fs \<or> last path = sep then (Some (EISDIR, path), fs)
      else if parent \<noteq> [] \<and> fs_files fs parent \<noteq> None then (Some (ENOTDIR, path), fs)
      else if parent \<noteq> [] \<and> parent \<notin> fs_dirs fs then (Some (ENOENT, path), fs)
      else if path \<in> fs_denied fs then (Some (EACCES, path), fs)
      else (None, fs\<lparr>fs_files := (fs_files fs)(path \<mapsto> content)\<rparr>))"

section \<open>The collaborators\<close>

text \<open>
  A file record is the dictionary the client returns for one file. A tablib dataset is
  its headers and its rows; \<^verbatim>\<open>Dataset.append\<close> adds a row at the end (the rows built
  here have the width of the headers, so its dimension check passes).
\<close>

type_synonym file_record = "string \<rightharpoonup> pyval"

record dataset =
  ds_headers :: "string list"
  ds_rows :: "string list list"

definition ds_append :: "dataset \<Rightarrow> string list \<Rightarrow> dataset" where
  "ds_append ds row = ds\<lparr>ds_rows := ds_rows ds @ [row]\<rparr>"

text \<open>
  What the module imports and does not define is a parameter of the embedding:
  \<^item> \<open>missing_access_token\<close>: the constant \<^verbatim>\<open>ERROR_MESSAGES['missing_access_token']\<close> of
    \<^verbatim>\<open>reana_client.config\<close>;
  \<^item> \<open>repr_str\<close>, \<open>format_exc\<close>: Python's \<^verbatim>\<open>repr\<close> of a string and
    \<^verbatim>\<open>traceback.format_exc()\<close> in the handler of an exception;
  \<^item> the three methods of \<^verbatim>\<open>ctx.obj.client\<close>, each a function of the state of the remote
    service and the arguments that returns a result or raises, and the new state;
  \<^item> \<^verbatim>\<open>Dataset.subset(rows=None, cols=...)\<close> (which may return \<^verbatim>\<open>None\<close>) and
    \<^verbatim>\<open>Dataset.export(format)\<close> of tablib;
  \<^item> \<^verbatim>\<open>click_table_printer(headers, _filter, data)\<close> of \<^verbatim>\<open>reana_commons.utils\<close>: the lines
    it printed and the exception that stopped it, if any.
\<close>

record 'r env =
  missing_access_token :: string
  repr_str :: "string \<Rightarrow> string"
  format_exc :: "exn \<Rightarrow> string"
  client_get_files :: "'r \<Rightarrow> string \<Rightarrow> string \<Rightarrow> (exn + file_record list) \<times> 'r"
  client_download_file :: "'r \<Rightarrow> string \<Rightarrow> string \<Rightarrow> string \<Rightarrow> (exn + bytes) \<times> 'r"
  client_upload_to_server :: "'r \<Rightarrow> string \<Rightarrow> string \<Rightarrow> string \<Rightarrow> (exn + string list) \<times> 'r"
  tablib_subset :: "dataset \<Rightarrow> string list \<Rightarrow> exn + dataset option"
  tablib_export :: "dataset \<Rightarrow> string \<Rightarrow> exn + string"
  click_table_printer :: "string list \<Rightarrow> string list \<Rightarrow> string list list \<Rightarrow> string list \<times> exn option"

record 'r world =
  remote :: 'r
  disk :: filesystem

text \<open>The click context: the command path and the parameters of the invocation, in order.\<close>

record ctx =
  command_path :: string
  params :: "(string \<times> pyval) list"

section \<open>The commands\<close>

text \<open>
  Each command starts with the same lines: the command path with spaces replaced by dots,
  then one debug message for every parameter of the invocation
  (\<^verbatim>\<open>for p in ctx.params: logging.debug('{param}: {value}'.format(...))\<close>).
\<close>

definition log_invocation :: "'r env \<Rightarrow> ctx \<Rightarrow> event list" where
  "log_invocation env ctx =
     LogDebug (''command: '' @ map (\<lambda>c. if c = CHR '' '' then CHR ''.'' else c) (command_path ctx))
     # map (\<lambda>(p, v). LogDebug (p @ '': '' @ py_str (repr_str env) v)) (params ctx)"

definition newline :: char where
  "newline = CHR 0x0A"

definition missing_workflow :: string where
  "missing_workflow =
     ''Workflow name must be provided either with `--workflow` option or with REANA_WORKON environment variable''"

text \<open>
  The handler of an exception, common to all \<^verbatim>\<open>except\<close> clauses: the traceback and the text
  at debug level, then one red line on the error stream.
\<close>

definition report :: "'r env \<Rightarrow> exn \<Rightarrow> string \<Rightarrow> event list" where
  "report env e msg =
     [LogDebug (format_exc env e), LogDebug (exn_str e), Echo Stderr (Some Red) msg]"

subsection \<open>\<^verbatim>\<open>get_files\<close>: the list command\<close>

definition headers :: "string list" where
  "headers = [''name'', ''size'', ''last-modified'']"

text \<open>\<^verbatim>\<open>d[k]\<close> on a dictionary: a missing key raises \<^verbatim>\<open>KeyError\<close>, whose text is \<^verbatim>\<open>repr(k)\<close>.\<close>

definition getitem :: "(string \<Rightarrow> string) \<Rightarrow> file_record \<Rightarrow> string \<Rightarrow> exn + pyval" where
  "getitem repr d k =
     (case d k of
        None \<Rightarrow> Inl \<lparr>exn_class = OtherException, exn_str = repr k\<rparr>
      | Some v \<Rightarrow> Inr v)"

text \<open>
  \<^verbatim>\<open>list(map(str, [file_['name'], file_['size'], file_['last-modified']]))\<close>: the three
  fields are read in this order, then each is passed to \<^verbatim>\<open>str\<close>.
\<close>

definition project_row :: "(string \<Rightarrow> string) \<Rightarrow> file_record \<Rightarrow> exn + string list" where
  "project_row repr file =
     (case getitem repr file ''name'' of
        Inl e \<Rightarrow> Inl e
      | Inr n \<Rightarrow>
          (case getitem repr file ''size'' of
             Inl e \<Rightarrow> Inl e
           | Inr sz \<Rightarrow>
               (case getitem repr file ''last-modified'' of
                  Inl e \<Rightarrow> Inl e
                | Inr lm \<Rightarrow> Inr [py_str repr n, py_str repr sz, py_str repr lm])))"

fun project_rows :: "(string \<Rightarrow> string) \<Rightarrow> file_record list \<Rightarrow> exn + string list list" where
  "project_rows repr [] = Inr []"
| "project_rows repr (file # response) =
     (case project_row repr file of
        Inl e \<Rightarrow> Inl e
      | Inr row \<Rightarrow>
          (case project_rows repr response of
             Inl e \<Rightarrow> Inl e
           | Inr data \<Rightarrow> Inr (row # data)))"

text \<open>
  \<^verbatim>\<open>tablib_data.export(output_format)\<close>, where \<^verbatim>\<open>tablib_data\<close> may be the \<^verbatim>\<open>None\<close> that
  \<^verbatim>\<open>subset\<close> returned: an attribute of \<^verbatim>\<open>None\<close> raises \<^verbatim>\<open>AttributeError\<close>.
\<close>

definition export :: "'r env \<Rightarrow> dataset option \<Rightarrow> string \<Rightarrow> exn + string" where
  "export env tablib_data output_format =
     (case tablib_data of
        None \<Rightarrow> Inl \<lparr>exn_class = OtherException,
                     exn_str = CHR 0x27 # ''NoneType'' @ CHR 0x27 # '' object has no attribute ''
                       @ CHR 0x27 # ''export'' @ [CHR 0x27]\<rparr>
      | Some ds \<Rightarrow> tablib_export env ds output_format)"

text \<open>
  The body of the \<^verbatim>\<open>try\<close> of \<^verbatim>\<open>get_files\<close>: the exception that left it, if any, the world
  and the events so far.
\<close>

definition get_files_try ::
  "'r env \<Rightarrow> string \<Rightarrow> string list \<Rightarrow> string option \<Rightarrow> string \<Rightarrow> 'r world
     \<Rightarrow> exn option \<times> 'r world \<times> event list" where
  "get_files_try env workflow filter_cols output_format access_token w =
     (case client_get_files env (remote w) workflow access_token of
        (Inl e, r) \<Rightarrow> (Some e, w\<lparr>remote := r\<rparr>, [Remote (GetFiles workflow access_token)])
      | (Inr response, r) \<Rightarrow>
          (let w' = w\<lparr>remote := r\<rparr>;
               tr = [Remote (GetFiles workflow access_token)]
           in case project_rows (repr_str env) response of
                Inl e \<Rightarrow> (Some e, w', tr)
              | Inr data \<Rightarrow>
                  (case nonempty output_format of
                     Some fmt \<Rightarrow>
                       (let tablib_data =
                              foldl ds_append \<lparr>ds_headers = headers, ds_rows = []\<rparr> data
                        in case (if filter_cols \<noteq> []
                                 then tablib_subset env tablib_data filter_cols
                                 else Inr (Some tablib_data)) of
                             Inl e \<Rightarrow> (Some e, w', tr)
                           | Inr tablib_data' \<Rightarrow>
                               (case export env tablib_data' fmt of
                                  Inl e \<Rightarrow> (Some e, w', tr)
                                | Inr out \<Rightarrow> (None, w', tr @ [Echo Stdout None out])))
                   | None \<Rightarrow>
                       (case click_table_printer env headers filter_cols data of
                          (lines, raised) \<Rightarrow> (raised, w', tr @ map (Echo Stdout None) lines)))))"

text \<open>\<^verbatim>\<open>except Exception as e\<close> of \<^verbatim>\<open>get_files\<close>; \<open>None\<close> when no clause matches.\<close>

definition get_files_except :: "'r env \<Rightarrow> string \<Rightarrow> exn \<Rightarrow> event list option" where
  "get_files_except env workflow e =
     (if isinstance e Cls_Exception then
        Some (report env e
          (''Something went wrong while retrieving file list for workflow '' @ workflow
            @ '':'' @ [newline] @ exn_str e))
      else None)"

definition get_files ::
  "'r env \<Rightarrow> ctx \<Rightarrow> string option \<Rightarrow> string list \<Rightarrow> string option \<Rightarrow> string option \<Rightarrow> 'r world
     \<Rightarrow> outcome \<times> 'r world \<times> event list" where
  "get_files env ctx workflow filter_cols output_format access_token w =
     (let log = log_invocation env ctx in
      case nonempty access_token of
        None \<Rightarrow> (Exit 1, w, log @ [Echo Stderr (Some Red) (missing_access_token env)])
      | Some tok \<Rightarrow>
          (case nonempty workflow of
             Some wname \<Rightarrow>
               (let log' = log @ [LogInfo (''Workflow \"'' @ wname @ ''\" selected'')] in
                case get_files_try env wname filter_cols output_format tok w of
                  (None, w', tr) \<Rightarrow> (Returned, w', log' @ tr)
                | (Some e, w', tr) \<Rightarrow>
                    (case get_files_except env wname e of
                       Some handled \<Rightarrow> (Returned, w', log' @ tr @ handled)
                     | None \<Rightarrow> (Raised e, w', log' @ tr)))
           | None \<Rightarrow> (Returned, w, log @ [Echo Stderr (Some Red) missing_workflow])))"

subsection \<open>\<^verbatim>\<open>download_files\<close>: the download command\<close>

text \<open>
  The lines of the \<^verbatim>\<open>try\<close> that touch the disk: the path is the output directory joined
  with the file name; its directory is made with \<^verbatim>\<open>os.makedirs\<close> when \<^verbatim>\<open>os.path.exists\<close>
  says it is not there; the file is opened in mode \<^verbatim>\<open>'wb'\<close> and the content written.
  The result is the \<^verbatim>\<open>OSError\<close> raised, if any, the disk and the operations tried.
\<close>

definition write_output ::
  "string \<Rightarrow> string \<Rightarrow> bytes \<Rightarrow> filesystem \<Rightarrow> (errno \<times> string) option \<times> filesystem \<times> event list" where
  "write_output output_directory file_name binary_file fs =
     (let outputs_file_path = os_path_join output_directory file_name;
          dir = os_path_dirname outputs_file_path
      in case (if \<not> os_path_exists fs dir
               then (case os_makedirs fs dir of (err, fs') \<Rightarrow> (err, fs', [Makedirs dir]))
               else (None, fs, [])) of
           (Some err, fs', tr) \<Rightarrow> (Some err, fs', tr)
         | (None, fs', tr) \<Rightarrow>
             (case open_wb_write fs' outputs_file_path binary_file of
                (err, fs'') \<Rightarrow> (err, fs'', tr @ [OpenWrite outputs_file_path binary_file])))"

text \<open>The body of the \<^verbatim>\<open>try\<close> for one file name.\<close>

definition download_try ::
  "'r env \<Rightarrow> string \<Rightarrow> string \<Rightarrow> string \<Rightarrow> string \<Rightarrow> 'r world
     \<Rightarrow> exn option \<times> 'r world \<times> event list" where
  "download_try env workflow output_directory access_token file_name w =
     (case client_download_file env (remote w) workflow file_name access_token of
        (Inl e, r) \<Rightarrow>
          (Some e, w\<lparr>remote := r\<rparr>, [Remote (DownloadFile workflow file_name access_token)])
      | (Inr binary_file, r) \<Rightarrow>
          (let tr = [Remote (DownloadFile workflow file_name access_token),
                     LogInfo (file_name @ '' binary file downloaded ... writing to ''
                                @ output_directory)]
           in case write_output output_directory file_name binary_file (disk w) of
                (Some (n, p), fs, ops) \<Rightarrow>
                  (Some (os_error (repr_str env) n p), \<lparr>remote = r, disk = fs\<rparr>, tr @ ops)
              | (None, fs, ops) \<Rightarrow>
                  (None, \<lparr>remote = r, disk = fs\<rparr>,
                   tr @ ops @ [Echo Stdout (Some Green)
                     (''File '' @ file_name @ '' downloaded to '' @ output_directory @ ''.'')])))"

text \<open>
  The \<^verbatim>\<open>except\<close> clauses of the download, in the order of the source: \<^verbatim>\<open>OSError\<close> first,
  then \<^verbatim>\<open>Exception\<close>.
\<close>

definition download_except :: "'r env \<Rightarrow> string \<Rightarrow> exn \<Rightarrow> event list option" where
  "download_except env file_name e =
     (if isinstance e Cls_OSError then
        Some (report env e (''File '' @ file_name @ '' could not be written.''))
      else if isinstance e Cls_Exception then
        Some (report env e (''File '' @ file_name @ '' could not be downloaded: '' @ exn_str e))
      else None)"

definition download_one ::
  "'r env \<Rightarrow> string \<Rightarrow> string \<Rightarrow> string \<Rightarrow> string \<Rightarrow> 'r world
     \<Rightarrow> exn option \<times> 'r world \<times> event list" where
  "download_one env workflow output_directory access_token file_name w =
     (case download_try env workflow output_directory access_token file_name w of
        (None, w', tr) \<Rightarrow> (None, w', tr)
      | (Some e, w', tr) \<Rightarrow>
          (case download_except env file_name e of
             Some handled \<Rightarrow> (None, w', tr @ handled)
           | None \<Rightarrow> (Some e, w', tr)))"

text \<open>\<^verbatim>\<open>for file_name in file_\<close>: an exception that no clause caught ends the loop.\<close>

fun download_loop ::
  "'r env \<Rightarrow> string \<Rightarrow> string \<Rightarrow> string \<Rightarrow> string list \<Rightarrow> 'r world
     \<Rightarrow> outcome \<times> 'r world \<times> event list" where
  "download_loop env workflow output_directory access_token [] w = (Returned, w, [])"
| "download_loop env workflow output_directory access_token (file_name # rest) w =
     (case download_one env workflow output_directory access_token file_name w of
        (Some e, w', tr) \<Rightarrow> (Raised e, w', tr)
      | (None, w', tr) \<Rightarrow>
          (case download_loop env workflow output_directory access_token rest w' of
             (result, w'', tr') \<Rightarrow> (result, w'', tr @ tr')))"

definition download_files ::
  "'r env \<Rightarrow> ctx \<Rightarrow> string option \<Rightarrow> string list \<Rightarrow> string \<Rightarrow> string option \<Rightarrow> 'r world
     \<Rightarrow> outcome \<times> 'r world \<times> event list" where
  "download_files env ctx workflow file_names output_directory access_token w =
     (let log = log_invocation env ctx in
      case nonempty access_token of
        None \<Rightarrow> (Exit 1, w, log @ [Echo Stderr (Some Red) (missing_access_token env)])
      | Some tok \<Rightarrow>
          (case nonempty workflow of
             Some wname \<Rightarrow>
               (case download_loop env wname output_directory tok file_names w of
                  (result, w', tr) \<Rightarrow> (result, w', log @ tr))
           | None \<Rightarrow> (Returned, w, log @ [Echo Stderr (Some Red) missing_workflow])))"

subsection \<open>\<^verbatim>\<open>upload_files\<close>: the upload command\<close>

text \<open>
  The body of the \<^verbatim>\<open>try\<close> for one file name: the call, then one green line for every
  identifier of the response.
\<close>

definition upload_try ::
  "'r env \<Rightarrow> string \<Rightarrow> string \<Rightarrow> string \<Rightarrow> 'r world \<Rightarrow> exn option \<times> 'r world \<times> event list" where
  "upload_try env workflow access_token filename w =
     (case client_upload_to_server env (remote w) workflow filename access_token of
        (Inl e, r) \<Rightarrow>
          (Some e, w\<lparr>remote := r\<rparr>, [Remote (UploadToServer workflow filename access_token)])
      | (Inr response, r) \<Rightarrow>
          (None, w\<lparr>remote := r\<rparr>,
           Remote (UploadToServer workflow filename access_token)
           # map (\<lambda>file. Echo Stdout (Some Green)
                    (''File '' @ file @ '' was successfully uploaded.'')) response))"

text \<open>The \<^verbatim>\<open>except\<close> clauses of the upload: \<^verbatim>\<open>FileUploadError\<close> first, then \<^verbatim>\<open>Exception\<close>.\<close>

definition upload_except :: "'r env \<Rightarrow> string \<Rightarrow> exn \<Rightarrow> event list option" where
  "upload_except env filename e =
     (if isinstance e Cls_FileUploadError then
        Some (report env e
          (''Something went wrong while uploading '' @ filename @ ''.'' @ [newline] @ exn_str e))
      else if isinstance e Cls_Exception then
        Some (report env e (''Something went wrong while uploading '' @ filename))
      else None)"

definition upload_one ::
  "'r env \<Rightarrow> string \<Rightarrow> string \<Rightarrow> string \<Rightarrow> 'r world \<Rightarrow> exn option \<times> 'r world \<times> event list" where
  "upload_one env workflow access_token filename w =
     (case upload_try env workflow access_token filename w of
        (None, w', tr) \<Rightarrow> (None, w', tr)
      | (Some e, w', tr) \<Rightarrow>
          (case upload_except env filename e of
             Some handled \<Rightarrow> (None, w', tr @ handled)
           | None \<Rightarrow> (Some e, w', tr)))"

fun upload_loop ::
  "'r env \<Rightarrow> string \<Rightarrow> string \<Rightarrow> string list \<Rightarrow> 'r world \<Rightarrow> outcome \<times> 'r world \<times> event list" where
  "upload_loop env workflow access_token [] w = (Returned, w, [])"
| "upload_loop env workflow access_token (filename # rest) w =
     (case upload_one env workflow access_token filename w of
        (Some e, w', tr) \<Rightarrow> (Raised e, w', tr)
      | (None, w', tr) \<Rightarrow>
          (case upload_loop env workflow access_token rest w' of
             (result, w'', tr') \<Rightarrow> (result, w'', tr @ tr')))"

definition upload_files ::
  "'r env \<Rightarrow> ctx \<Rightarrow> string option \<Rightarrow> string list \<Rightarrow> string option \<Rightarrow> 'r world
     \<Rightarrow> outcome \<times> 'r world \<times> event list" where
  "upload_files env ctx workflow filenames access_token w =
     (let log = log_invocation env ctx in
      case nonempty access_token of
        None \<Rightarrow> (Exit 1, w, log @ [Echo Stderr (Some Red) (missing_access_token env)])
      | Some tok \<Rightarrow>
          (case nonempty workflow of
             Some wname \<Rightarrow>
               (case upload_loop env wname tok filenames w of
                  (result, w', tr) \<Rightarrow> (result, w', log @ tr))
           | None \<Rightarrow> (Returned, w, log @ [Echo Stderr (Some Red) missing_workflow])))"

section \<open>An example installation\<close>

text \<open>
  The context click builds for an invocation: the command path and the parameters in the
  order of their declaration, an option that was not given being \<^verbatim>\<open>None\<close>.
\<close>

definition py_opt :: "string option \<Rightarrow> pyval" where
  "py_opt v = (case v of None \<Rightarrow> PyNone | Some s \<Rightarrow> PyStr s)"

definition list_ctx :: "string option \<Rightarrow> string list \<Rightarrow> string option \<Rightarrow> string option \<Rightarrow> ctx" where
  "list_ctx workflow filter_cols output_format access_token =
     \<lparr>command_path = ''reana-client files list'',
      params = [(''workflow'', py_opt workflow), (''_filter'', PyTuple filter_cols),
                (''output_format'', py_opt output_format),
                (''access_token'', py_opt access_token)]\<rparr>"

definition download_ctx :: "string option \<Rightarrow> string list \<Rightarrow> string \<Rightarrow> string option \<Rightarrow> ctx" where
  "download_ctx workflow file_names output_directory access_token =
     \<lparr>command_path = ''reana-client files download'',
      params = [(''file_'', PyTuple file_names), (''workflow'', py_opt workflow),
                (''output_directory'', PyStr output_directory),
                (''access_token'', py_opt access_token)]\<rparr>"

definition upload_ctx :: "string option \<Rightarrow> string list \<Rightarrow> string option \<Rightarrow> ctx" where
  "upload_ctx workflow filenames access_token =
     \<lparr>command_path = ''reana-client files upload'',
      params = [(''filenames'', PyTuple filenames), (''workflow'', py_opt workflow),
                (''access_token'', py_opt access_token)]\<rparr>"

text \<open>
  A client whose answers depend on the names only, used to run the commands on concrete
  inputs. The workflow \<^verbatim>\<open>nowf\<close> is unknown to the service; \<^verbatim>\<open>gone.txt\<close> is not in the
  workspace; the connection breaks while \<^verbatim>\<open>net.txt\<close> is fetched (a \<^verbatim>\<open>ConnectionError\<close>, which
  is an \<^verbatim>\<open>OSError\<close>); \<^verbatim>\<open>/data/bad.txt\<close> is refused with a \<^verbatim>\<open>FileUploadError\<close> and
  \<^verbatim>\<open>/data/odd.txt\<close> with another exception.
\<close>

definition example_files :: "file_record list" where
  "example_files =
     [[''name'' \<mapsto> PyStr ''a.txt'', ''size'' \<mapsto> PyInt 10, ''last-modified'' \<mapsto> PyStr ''t1'']]"

definition example_env :: "unit env" where
  "example_env =
     \<lparr>missing_access_token = ''Please provide your access token'',
      repr_str = (\<lambda>s. CHR 0x27 # s @ [CHR 0x27]),
      format_exc = (\<lambda>e. ''Traceback (most recent call last): '' @ exn_str e),
      client_get_files = (\<lambda>r workflow token.
        if workflow = ''nowf''
        then (Inl \<lparr>exn_class = OtherException, exn_str = ''no such workflow''\<rparr>, r)
        else (Inr example_files, r)),
      client_download_file = (\<lambda>r workflow file_name token.
        if file_name = ''gone.txt''
        then (Inl \<lparr>exn_class = OtherException, exn_str = ''not found''\<rparr>, r)
        else if file_name = ''net.txt''
        then (Inl \<lparr>exn_class = OSError, exn_str = ''Connection refused''\<rparr>, r)
        else (Inr ''payload'', r)),
      client_upload_to_server = (\<lambda>r workflow filename token.
        if filename = ''/data/bad.txt''
        then (Inl \<lparr>exn_class = FileUploadError, exn_str = ''rejected''\<rparr>, r)
        else if filename = ''/data/odd.txt''
        then (Inl \<lparr>exn_class = OtherException, exn_str = ''boom''\<rparr>, r)
        else (Inr [filename], r)),
      tablib_subset = (\<lambda>ds cols. Inr (Some (ds\<lparr>ds_headers := cols\<rparr>))),
      tablib_export = (\<lambda>ds fmt. Inr (join_comma (map join_comma (ds_headers ds # ds_rows ds)))),
      click_table_printer = (\<lambda>hs cols data. (map join_comma (hs # data), None))\<rparr>"

definition example_disk :: filesystem where
  "example_disk =
     \<lparr>fs_dirs = {''/'', ''/tmp'', ''/tmp/x''}, fs_files = Map.empty,
      fs_denied = {''/tmp/x/locked.txt''}\<rparr>"

definition example_world :: "unit world" where
  "example_world = \<lparr>remote = (), disk = example_disk\<rparr>"

section \<open>Facts about traces and loops\<close>

lemma remote_calls_append: "remote_calls (xs @ ys) = remote_calls xs @ remote_calls ys"
  by (induction xs rule: remote_calls.induct) simp_all

lemma echoed_append: "echoed s (xs @ ys) = echoed s xs @ echoed s ys"
  by (induction s xs rule: echoed.induct) simp_all

lemma log_messages_append: "log_messages (xs @ ys) = log_messages xs @ log_messages ys"
  by (induction xs rule: log_messages.induct) simp_all

lemma remote_calls_LogDebug: "remote_calls (map (\<lambda>x. LogDebug (f x)) xs) = []"
  by (induction xs) simp_all

lemma echoed_LogDebug: "echoed s (map (\<lambda>x. LogDebug (f x)) xs) = []"
  by (induction xs) simp_all

lemma remote_calls_Echo: "remote_calls (map (\<lambda>x. Echo s c (f x)) xs) = []"
  by (induction xs) simp_all

lemma remote_calls_report: "remote_calls (report env e msg) = []"
  by (simp add: report_def)

lemma remote_calls_log_invocation: "remote_calls (log_invocation env ctx) = []"
  using remote_calls_LogDebug[of "\<lambda>(p, v). p @ '': '' @ py_str (repr_str env) v" "params ctx"]
  by (simp add: log_invocation_def case_prod_unfold)

lemma echoed_log_invocation: "echoed s (log_invocation env ctx) = []"
  using echoed_LogDebug[of s "\<lambda>(p, v). p @ '': '' @ py_str (repr_str env) v" "params ctx"]
  by (simp add: log_invocation_def case_prod_unfold)

lemma upload_except_cases:
  "upload_except env filename e = Some (report env e
     (if exn_class e = FileUploadError
      then ''Something went wrong while uploading '' @ filename @ ''.'' @ [newline] @ exn_str e
      else ''Something went wrong while uploading '' @ filename))"
  by (simp add: upload_except_def)

lemma upload_one_caught: "fst (upload_one env workflow tok filename w) = None"
proof (cases "upload_try env workflow tok filename w")
  case (fields raised w' tr)
  show ?thesis
  proof (cases raised)
    case None
    with fields show ?thesis by (simp add: upload_one_def)
  next
    case (Some e)
    with fields show ?thesis by (simp add: upload_one_def upload_except_cases)
  qed
qed

lemma upload_try_calls:
  "remote_calls (snd (snd (upload_try env workflow tok filename w)))
     = [UploadToServer workflow filename tok]"
proof (cases "client_upload_to_server env (remote w) workflow filename tok")
  case (Pair res r)
  then show ?thesis
    by (cases res) (simp_all add: upload_try_def remote_calls_Echo)
qed

lemma upload_one_calls:
  "remote_calls (snd (snd (upload_one env workflow tok filename w)))
     = [UploadToServer workflow filename tok]"
proof (cases "upload_try env workflow tok filename w")
  case (fields raised w' tr)
  then have tr: "remote_calls tr = [UploadToServer workflow filename tok]"
    using upload_try_calls[of env workflow tok filename w] by simp
  show ?thesis
  proof (cases raised)
    case None
    with fields tr show ?thesis by (simp add: upload_one_def)
  next
    case (Some e)
    with fields tr show ?thesis
      by (simp add: upload_one_def upload_except_cases remote_calls_append remote_calls_report)
  qed
qed

lemma upload_loop_Cons:
  "upload_loop env workflow tok (filename # rest) w =
     (case upload_one env workflow tok filename w of
        (raised, w', tr) \<Rightarrow>
          (case upload_loop env workflow tok rest w' of
             (result, w'', tr') \<Rightarrow> (result, w'', tr @ tr')))"
proof (cases "upload_one env workflow tok filename w")
  case (fields raised w' tr)
  then have "raised = None"
    using upload_one_caught[of env workflow tok filename w] by simp
  with fields show ?thesis by simp
qed

lemma upload_loop_returns: "fst (upload_loop env workflow tok filenames w) = Returned"
proof (induction filenames arbitrary: w)
  case Nil
  show ?case by simp
next
  case (Cons filename rest)
  obtain x w' tr where one: "upload_one env workflow tok filename w = (x, w', tr)"
    by (cases "upload_one env workflow tok filename w") auto
  obtain res w'' tr' where rest: "upload_loop env workflow tok rest w' = (res, w'', tr')"
    by (cases "upload_loop env workflow tok rest w'") auto
  have "res = Returned" using Cons.IH[of w'] rest by simp
  then show ?case by (simp add: upload_loop_Cons one rest del: upload_loop.simps)
qed

lemma upload_loop_calls:
  "remote_calls (snd (snd (upload_loop env workflow tok filenames w)))
     = map (\<lambda>filename. UploadToServer workflow filename tok) filenames"
proof (induction filenames arbitrary: w)
  case Nil
  show ?case by simp
next
  case (Cons filename rest)
  obtain x w' tr where one: "upload_one env workflow tok filename w = (x, w', tr)"
    by (cases "upload_one env workflow tok filename w") auto
  obtain res w'' tr' where rest: "upload_loop env workflow tok rest w' = (res, w'', tr')"
    by (cases "upload_loop env workflow tok rest w'") auto
  have "remote_calls tr = [UploadToServer workflow filename tok]"
    using upload_one_calls[of env workflow tok filename w] one by simp
  moreover have "remote_calls tr' = map (\<lambda>filename. UploadToServer workflow filename tok) rest"
    using Cons.IH[of w'] rest by simp
  ultimately show ?case
    by (simp add: upload_loop_Cons one rest remote_calls_append del: upload_loop.simps)
qed

lemma upload_one_raised:
  assumes "client_upload_to_server env (remote w) workflow filename tok = (Inl e, r)"
  shows "upload_one env workflow tok filename w =
           (None, w\<lparr>remote := r\<rparr>,
            [Remote (UploadToServer workflow filename tok), LogDebug (format_exc env e),
             LogDebug (exn_str e),
             Echo Stderr (Some Red)
               (if exn_class e = FileUploadError
                then ''Something went wrong while uploading '' @ filename @ ''.'' @ [newline]
                       @ exn_str e
                else ''Something went wrong while uploading '' @ filename)])"
  using assms by (simp add: upload_one_def upload_try_def upload_except_cases report_def)

lemma remote_calls_write_output:
  "remote_calls (snd (snd (write_output output_directory file_name binary_file fs))) = []"
  by (simp add: write_output_def Let_def remote_calls_append split: prod.splits option.splits)

lemma download_except_cases:
  "download_except env file_name e = Some (report env e
     (if exn_class e = OSError
      then ''File '' @ file_name @ '' could not be written.''
      else ''File '' @ file_name @ '' could not be downloaded: '' @ exn_str e))"
  by (simp add: download_except_def)

lemma download_one_caught:
  "fst (download_one env workflow output_directory tok file_name w) = None"
proof (cases "download_try env workflow output_directory tok file_name w")
  case (fields raised w' tr)
  show ?thesis
  proof (cases raised)
    case None
    with fields show ?thesis by (simp add: download_one_def)
  next
    case (Some e)
    with fields show ?thesis by (simp add: download_one_def download_except_cases)
  qed
qed

lemma download_try_calls:
  "remote_calls (snd (snd (download_try env workflow output_directory tok file_name w)))
     = [DownloadFile workflow file_name tok]"
proof (cases "client_download_file env (remote w) workflow file_name tok")
  case (Pair res r)
  show ?thesis
  proof (cases res)
    case (Inl e)
    with Pair show ?thesis by (simp add: download_try_def)
  next
    case (Inr binary_file)
    obtain err fs ops where
      out: "write_output output_directory file_name binary_file (disk w) = (err, fs, ops)"
      by (cases "write_output output_directory file_name binary_file (disk w)") auto
    have "remote_calls ops = []"
      using remote_calls_write_output[of output_directory file_name binary_file "disk w"] out
      by simp
    with Pair Inr out show ?thesis
      by (cases err) (auto simp: download_try_def remote_calls_append)
  qed
qed

lemma download_one_calls:
  "remote_calls (snd (snd (download_one env workflow output_directory tok file_name w)))
     = [DownloadFile workflow file_name tok]"
proof (cases "download_try env workflow output_directory tok file_name w")
  case (fields raised w' tr)
  then have tr: "remote_calls tr = [DownloadFile workflow file_name tok]"
    using download_try_calls[of env workflow output_directory tok file_name w] by simp
  show ?thesis
  proof (cases raised)
    case None
    with fields tr show ?thesis by (simp add: download_one_def)
  next
    case (Some e)
    with fields tr show ?thesis
      by (simp add: download_one_def download_except_cases remote_calls_append
          remote_calls_report)
  qed
qed

lemma download_loop_Cons:
  "download_loop env workflow output_directory tok (file_name # rest) w =
     (case download_one env workflow output_directory tok file_name w of
        (raised, w', tr) \<Rightarrow>
          (case download_loop env workflow output_directory tok rest w' of
             (result, w'', tr') \<Rightarrow> (result, w'', tr @ tr')))"
proof (cases "download_one env workflow output_directory tok file_name w")
  case (fields raised w' tr)
  then have "raised = None"
    using download_one_caught[of env workflow output_directory tok file_name w] by simp
  with fields show ?thesis by simp
qed

lemma download_loop_returns:
  "fst (download_loop env workflow output_directory tok file_names w) = Returned"
proof (induction file_names arbitrary: w)
  case Nil
  show ?case by simp
next
  case (Cons file_name rest)
  obtain x w' tr where
    one: "download_one env workflow output_directory tok file_name w = (x, w', tr)"
    by (cases "download_one env workflow output_directory tok file_name w") auto
  obtain res w'' tr' where
    rest: "download_loop env workflow output_directory tok rest w' = (res, w'', tr')"
    by (cases "download_loop env workflow output_directory tok rest w'") auto
  have "res = Returned" using Cons.IH[of w'] rest by simp
  then show ?case by (simp add: download_loop_Cons one rest del: download_loop.simps)
qed

lemma download_loop_calls:
  "remote_calls (snd (snd (download_loop env workflow output_directory tok file_names w)))
     = map (\<lambda>file_name. DownloadFile workflow file_name tok) file_names"
proof (induction file_names arbitrary: w)
  case Nil
  show ?case by simp
next
  case (Cons file_name rest)
  obtain x w' tr where
    one: "download_one env workflow output_directory tok file_name w = (x, w', tr)"
    by (cases "download_one env workflow output_directory tok file_name w") auto
  obtain res w'' tr' where
    rest: "download_loop env workflow output_directory tok rest w' = (res, w'', tr')"
    by (cases "download_loop env workflow output_directory tok rest w'") auto
  have "remote_calls tr = [DownloadFile workflow file_name tok]"
    using download_one_calls[of env workflow output_directory tok file_name w] one by simp
  moreover have "remote_calls tr' = map (\<lambda>file_name. DownloadFile workflow file_name tok) rest"
    using Cons.IH[of w'] rest by simp
  ultimately show ?case
    by (simp add: download_loop_Cons one rest remote_calls_append del: download_loop.simps)
qed

lemma download_one_raised:
  assumes "client_download_file env (remote w) workflow file_name tok = (Inl e, r)"
  shows "download_one env workflow output_directory tok file_name w =
           (None, w\<lparr>remote := r\<rparr>,
            [Remote (DownloadFile workflow file_name tok), LogDebug (format_exc env e),
             LogDebug (exn_str e),
             Echo Stderr (Some Red)
               (if exn_class e = OSError
                then ''File '' @ file_name @ '' could not be written.''
                else ''File '' @ file_name @ '' could not be downloaded: '' @ exn_str e)])"
  using assms by (simp add: download_one_def download_try_def download_except_cases report_def)

lemma download_one_not_written:
  assumes "client_download_file env (remote w) workflow file_name tok = (Inr binary_file, r)"
      and "write_output output_directory file_name binary_file (disk w) = (Some (n, p), fs, ops)"
  shows "download_one env workflow output_directory tok file_name w =
           (None, \<lparr>remote = r, disk = fs\<rparr>,
            [Remote (DownloadFile workflow file_name tok),
             LogInfo (file_name @ '' binary file downloaded ... writing to '' @ output_directory)]
            @ ops
            @ [LogDebug (format_exc env (os_error (repr_str env) n p)),
               LogDebug (exn_str (os_error (repr_str env) n p)),
               Echo Stderr (Some Red) (''File '' @ file_name @ '' could not be written.'')])"
  using assms
  by (simp add: download_one_def download_try_def download_except_cases report_def os_error_def)

lemma download_one_written:
  assumes "client_download_file env (remote w) workflow file_name tok = (Inr binary_file, r)"
      and "write_output output_directory file_name binary_file (disk w) = (None, fs, ops)"
  shows "download_one env workflow output_directory tok file_name w =
           (None, \<lparr>remote = r, disk = fs\<rparr>,
            [Remote (DownloadFile workflow file_name tok),
             LogInfo (file_name @ '' binary file downloaded ... writing to '' @ output_directory)]
            @ ops
            @ [Echo Stdout (Some Green)
                 (''File '' @ file_name @ '' downloaded to '' @ output_directory @ ''.'')])"
  using assms by (simp add: download_one_def download_try_def)







lemma foldl_ds_append: "foldl ds_append ds data = ds\<lparr>ds_rows := ds_rows ds @ data\<rparr>"
  by (induction data arbitrary: ds) (simp_all add: ds_append_def)



lemma get_files_except_cases:
  "get_files_except env workflow e = Some (report env e
     (''Something went wrong while retrieving file list for workflow '' @ workflow @ '':''
        @ [newline] @ exn_str e))"
  by (simp add: get_files_except_def)

lemma get_files_returns:
  assumes "nonempty access_token = Some tok"
  shows "fst (get_files env ctx workflow filter_cols output_format access_token w) = Returned"
proof (cases "nonempty workflow")
  case None
  with assms show ?thesis by (simp add: get_files_def)
next
  case (Some wname)
  obtain raised w' tr where
    body: "get_files_try env wname filter_cols output_format tok w = (raised, w', tr)"
    by (cases "get_files_try env wname filter_cols output_format tok w") auto
  show ?thesis
    using assms Some body
    by (cases raised) (simp_all add: get_files_def get_files_except_cases)
qed

lemma download_files_returns:
  assumes "nonempty access_token = Some tok"
  shows "fst (download_files env ctx workflow file_names output_directory access_token w)
           = Returned"
proof (cases "nonempty workflow")
  case None
  with assms show ?thesis by (simp add: download_files_def)
next
  case (Some wname)
  then show ?thesis
    using assms download_loop_returns[of env wname output_directory tok file_names w]
    by (auto simp: download_files_def split: prod.splits)
qed

lemma upload_files_returns:
  assumes "nonempty access_token = Some tok"
  shows "fst (upload_files env ctx workflow filenames access_token w) = Returned"
proof (cases "nonempty workflow")
  case None
  with assms show ?thesis by (simp add: upload_files_def)
next
  case (Some wname)
  then show ?thesis
    using assms upload_loop_returns[of env wname tok filenames w]
    by (auto simp: upload_files_def split: prod.splits)
qed

lemma get_files_raised:
  assumes "nonempty access_token = Some tok" and "nonempty workflow = Some wname"
      and "get_files_try env wname filter_cols output_format tok w = (Some e, w', tr)"
  shows "get_files env ctx workflow filter_cols output_format access_token w
           = (Returned, w',
              log_invocation env ctx @ [LogInfo (''Workflow \"'' @ wname @ ''\" selected'')]
              @ tr
              @ [LogDebug (format_exc env e), LogDebug (exn_str e),
                 Echo Stderr (Some Red)
                   (''Something went wrong while retrieving file list for workflow '' @ wname
                      @ '':'' @ [newline] @ exn_str e)])"
  using assms by (simp add: get_files_def get_files_except_cases report_def)

lemma get_files_try_remote_raises:
  assumes "client_get_files env (remote w) wname tok = (Inl e, r)"
  shows "get_files_try env wname filter_cols output_format tok w
           = (Some e, w\<lparr>remote := r\<rparr>, [Remote (GetFiles wname tok)])"
  using assms by (simp add: get_files_try_def)

lemma get_files_try_printer_raises:
  assumes "client_get_files env (remote w) wname tok = (Inr response, r)"
      and "project_rows (repr_str env) response = Inr data"
      and "nonempty output_format = None"
      and "click_table_printer env headers filter_cols data = (lines, Some e)"
  shows "get_files_try env wname filter_cols output_format tok w
           = (Some e, w\<lparr>remote := r\<rparr>,
              Remote (GetFiles wname tok) # map (Echo Stdout None) lines)"
  using assms by (simp add: get_files_try_def)

lemma get_files_try_export_raises:
  assumes "client_get_files env (remote w) wname tok = (Inr response, r)"
      and "project_rows (repr_str env) response = Inr data"
      and "nonempty output_format = Some fmt"
      and "(if filter_cols \<noteq> []
            then tablib_subset env \<lparr>ds_headers = headers, ds_rows = data\<rparr> filter_cols
            else Inr (Some \<lparr>ds_headers = headers, ds_rows = data\<rparr>)) = Inr tablib_data"
      and "export env tablib_data fmt = Inl e"
  shows "get_files_try env wname filter_cols output_format tok w
           = (Some e, w\<lparr>remote := r\<rparr>, [Remote (GetFiles wname tok)])"
  using assms by (simp add: get_files_try_def foldl_ds_append)

lemma get_files_try_subset_raises:
  assumes "client_get_files env (remote w) wname tok = (Inr response, r)"
      and "project_rows (repr_str env) response = Inr data"
      and "nonempty output_format = Some fmt" and "filter_cols \<noteq> []"
      and "tablib_subset env \<lparr>ds_headers = headers, ds_rows = data\<rparr> filter_cols = Inl e"
  shows "get_files_try env wname filter_cols output_format tok w
           = (Some e, w\<lparr>remote := r\<rparr>, [Remote (GetFiles wname tok)])"
  using assms by (simp add: get_files_try_def foldl_ds_append)

lemma log_messages_LogDebug: "log_messages (map (\<lambda>x. LogDebug (f x)) xs) = map f xs"
  by (induction xs) simp_all

lemma log_messages_Echo: "log_messages (map (\<lambda>x. Echo s c (f x)) xs) = []"
  by (induction xs) simp_all

lemma log_messages_Echo_lines: "log_messages (map (Echo s c) xs) = []"
  by (induction xs) simp_all

lemma log_messages_report:
  "log_messages (report env e msg) = [format_exc env e, exn_str e]"
  by (simp add: report_def)

lemma log_messages_log_invocation:
  "log_messages (log_invocation env ctx)
     = (''command: '' @ map (\<lambda>c. if c = CHR '' '' then CHR ''.'' else c) (command_path ctx))
       # map (\<lambda>(p, v). p @ '': '' @ py_str (repr_str env) v) (params ctx)"
  using log_messages_LogDebug[of "\<lambda>(p, v). p @ '': '' @ py_str (repr_str env) v" "params ctx"]
  by (simp add: log_invocation_def case_prod_unfold)

lemma length_logged_invocation:
  "length (log_messages (log_invocation env ctx)) = Suc (length (params ctx))"
  by (simp add: log_messages_log_invocation)

lemma drop_invocation_only:
  "drop (Suc (length (params ctx))) (log_messages (log_invocation env ctx)) = []"
  by (simp add: log_messages_log_invocation)

lemma parameter_logged:
  assumes "(p, v) \<in> set (params ctx)"
  shows "p @ '': '' @ py_str (repr_str env) v \<in> set (log_messages (log_invocation env ctx @ tr))"
proof -
  have "(\<lambda>(p, v). p @ '': '' @ py_str (repr_str env) v) (p, v)
          \<in> (\<lambda>(p, v). p @ '': '' @ py_str (repr_str env) v) ` set (params ctx)"
    using assms by (rule imageI)
  then show ?thesis
    by (simp add: log_messages_append log_messages_log_invocation)
qed

lemma get_files_starts:
  "\<exists>tr. snd (snd (get_files env ctx workflow filter_cols output_format access_token w))
          = log_invocation env ctx @ tr"
proof (cases "nonempty access_token")
  case None
  then show ?thesis by (simp add: get_files_def)
next
  case (Some tok)
  show ?thesis
  proof (cases "nonempty workflow")
    case None
    with Some show ?thesis by (simp add: get_files_def)
  next
    case wflow: (Some wname)
    obtain raised w' tr where
      body: "get_files_try env wname filter_cols output_format tok w = (raised, w', tr)"
      by (cases "get_files_try env wname filter_cols output_format tok w") auto
    show ?thesis
      using Some wflow body
      by (cases raised) (simp_all add: get_files_def get_files_except_cases)
  qed
qed

lemma download_files_starts:
  "\<exists>tr. snd (snd (download_files env ctx workflow file_names output_directory access_token w))
          = log_invocation env ctx @ tr"
  by (auto simp: download_files_def Let_def split: option.splits prod.splits)

lemma upload_files_starts:
  "\<exists>tr. snd (snd (upload_files env ctx workflow filenames access_token w))
          = log_invocation env ctx @ tr"
  by (auto simp: upload_files_def Let_def split: option.splits prod.splits)

text \<open>A client that does not look at the token answers two tokens alike.\<close>

lemma get_files_try_blind:
  assumes "\<And>r wf t t'. client_get_files env r wf t = client_get_files env r wf t'"
  shows "fst (get_files_try env wname filter_cols output_format t1 w)
           = fst (get_files_try env wname filter_cols output_format t2 w)
       \<and> fst (snd (get_files_try env wname filter_cols output_format t1 w))
           = fst (snd (get_files_try env wname filter_cols output_format t2 w))
       \<and> log_messages (snd (snd (get_files_try env wname filter_cols output_format t1 w))) = []
       \<and> log_messages (snd (snd (get_files_try env wname filter_cols output_format t2 w))) = []"
proof -
  obtain res r where second: "client_get_files env (remote w) wname t2 = (res, r)"
    by (cases "client_get_files env (remote w) wname t2") auto
  then have first: "client_get_files env (remote w) wname t1 = (res, r)"
    using assms[of "remote w" wname t1 t2] by simp
  show ?thesis
    using first second
    by (auto simp: get_files_try_def Let_def log_messages_append log_messages_Echo_lines
        split: sum.splits option.splits prod.splits)
qed

lemma download_one_blind:
  assumes "\<And>r wf f t t'. client_download_file env r wf f t = client_download_file env r wf f t'"
  shows "fst (snd (download_one env wname output_directory t1 file_name w))
           = fst (snd (download_one env wname output_directory t2 file_name w))
       \<and> log_messages (snd (snd (download_one env wname output_directory t1 file_name w)))
           = log_messages (snd (snd (download_one env wname output_directory t2 file_name w)))"
proof -
  obtain res r where second: "client_download_file env (remote w) wname file_name t2 = (res, r)"
    by (cases "client_download_file env (remote w) wname file_name t2") auto
  then have first: "client_download_file env (remote w) wname file_name t1 = (res, r)"
    using assms[of "remote w" wname file_name t1 t2] by simp
  show ?thesis
  proof (cases res)
    case (Inl e)
    show ?thesis
      using download_one_raised[of env w wname file_name t1 e r output_directory]
        download_one_raised[of env w wname file_name t2 e r output_directory]
        first second Inl
      by simp
  next
    case (Inr b)
    obtain err fs ops where
      out: "write_output output_directory file_name b (disk w) = (err, fs, ops)"
      by (cases "write_output output_directory file_name b (disk w)") auto
    show ?thesis
    proof (cases err)
      case None
      show ?thesis
        using download_one_written[of env w wname file_name t1 b r output_directory fs ops]
          download_one_written[of env w wname file_name t2 b r output_directory fs ops]
          first second Inr out None
        by (simp add: log_messages_append)
    next
      case (Some np)
      obtain n p where np: "np = (n, p)" by (cases np) auto
      show ?thesis
        using download_one_not_written[of env w wname file_name t1 b r output_directory n p fs ops]
          download_one_not_written[of env w wname file_name t2 b r output_directory n p fs ops]
          first second Inr out Some np
        by (simp add: log_messages_append)
    qed
  qed
qed

lemma download_loop_blind:
  assumes "\<And>r wf f t t'. client_download_file env r wf f t = client_download_file env r wf f t'"
  shows "fst (snd (download_loop env wname output_directory t1 file_names w))
           = fst (snd (download_loop env wname output_directory t2 file_names w))
       \<and> log_messages (snd (snd (download_loop env wname output_directory t1 file_names w)))
           = log_messages (snd (snd (download_loop env wname output_directory t2 file_names w)))"
proof (induction file_names arbitrary: w)
  case Nil
  show ?case by simp
next
  case (Cons file_name rest)
  obtain x1 w1 tr1 where
    one1: "download_one env wname output_directory t1 file_name w = (x1, w1, tr1)"
    by (cases "download_one env wname output_directory t1 file_name w") auto
  obtain x2 w2 tr2 where
    one2: "download_one env wname output_directory t2 file_name w = (x2, w2, tr2)"
    by (cases "download_one env wname output_directory t2 file_name w") auto
  have same: "w1 = w2 \<and> log_messages tr1 = log_messages tr2"
    using download_one_blind[OF assms, of wname output_directory t1 file_name w t2] one1 one2
    by simp
  show ?case
    using same Cons.IH[of w2] one1 one2
    by (auto simp: download_loop_Cons log_messages_append split: prod.splits
        simp del: download_loop.simps)
qed

lemma upload_one_blind:
  assumes "\<And>r wf f t t'.
             client_upload_to_server env r wf f t = client_upload_to_server env r wf f t'"
  shows "fst (snd (upload_one env wname t1 filename w))
           = fst (snd (upload_one env wname t2 filename w))
       \<and> log_messages (snd (snd (upload_one env wname t1 filename w)))
           = log_messages (snd (snd (upload_one env wname t2 filename w)))"
proof -
  obtain res r where second: "client_upload_to_server env (remote w) wname filename t2 = (res, r)"
    by (cases "client_upload_to_server env (remote w) wname filename t2") auto
  then have first: "client_upload_to_server env (remote w) wname filename t1 = (res, r)"
    using assms[of "remote w" wname filename t1 t2] by simp
  show ?thesis
  proof (cases res)
    case (Inl e)
    show ?thesis
      using upload_one_raised[of env w wname filename t1 e r]
        upload_one_raised[of env w wname filename t2 e r] first second Inl
      by simp
  next
    case (Inr response)
    show ?thesis
      using first second Inr
      by (simp add: upload_one_def upload_try_def log_messages_Echo)
  qed
qed

lemma upload_loop_blind:
  assumes "\<And>r wf f t t'.
             client_upload_to_server env r wf f t = client_upload_to_server env r wf f t'"
  shows "fst (snd (upload_loop env wname t1 filenames w))
           = fst (snd (upload_loop env wname t2 filenames w))
       \<and> log_messages (snd (snd (upload_loop env wname t1 filenames w)))
           = log_messages (snd (snd (upload_loop env wname t2 filenames w)))"
proof (induction filenames arbitrary: w)
  case Nil
  show ?case by simp
next
  case (Cons filename rest)
  obtain x1 w1 tr1 where one1: "upload_one env wname t1 filename w = (x1, w1, tr1)"
    by (cases "upload_one env wname t1 filename w") auto
  obtain x2 w2 tr2 where one2: "upload_one env wname t2 filename w = (x2, w2, tr2)"
    by (cases "upload_one env wname t2 filename w") auto
  have same: "w1 = w2 \<and> log_messages tr1 = log_messages tr2"
    using upload_one_blind[OF assms, of wname t1 filename w t2] one1 one2 by simp
  show ?case
    using same Cons.IH[of w2] one1 one2
    by (auto simp: upload_loop_Cons log_messages_append split: prod.splits
        simp del: upload_loop.simps)
qed

lemma get_files_blind:
  assumes "\<And>r wf t t'. client_get_files env r wf t = client_get_files env r wf t'"
      and "t1 \<noteq> []" and "t2 \<noteq> []"
  shows "drop (Suc (length (params ctx1)))
           (log_messages (snd (snd
              (get_files env ctx1 workflow filter_cols output_format (Some t1) w))))
       = drop (Suc (length (params ctx2)))
           (log_messages (snd (snd
              (get_files env ctx2 workflow filter_cols output_format (Some t2) w))))"
proof (cases "nonempty workflow")
  case None
  then show ?thesis
    using assms(2) assms(3)
    by (simp add: get_files_def nonempty_def drop_invocation_only log_messages_append)
next
  case (Some wname)
  obtain x1 w1 tr1 where
    one: "get_files_try env wname filter_cols output_format t1 w = (x1, w1, tr1)"
    by (cases "get_files_try env wname filter_cols output_format t1 w") auto
  obtain x2 w2 tr2 where
    two: "get_files_try env wname filter_cols output_format t2 w = (x2, w2, tr2)"
    by (cases "get_files_try env wname filter_cols output_format t2 w") auto
  have same: "x1 = x2 \<and> log_messages tr1 = [] \<and> log_messages tr2 = []"
    using get_files_try_blind[OF assms(1), of wname filter_cols output_format t1 w t2] one two
    by simp
  have first: "nonempty (Some t1) = Some t1" and second: "nonempty (Some t2) = Some t2"
    using assms(2) assms(3) by (simp_all add: nonempty_def)
  show ?thesis
  proof (cases x2)
    case None
    then show ?thesis
      using Some one two same first second
      by (simp add: get_files_def drop_invocation_only length_logged_invocation
          log_messages_append)
  next
    case raised: (Some e)
    then show ?thesis
      using Some one two same first second
      by (simp add: get_files_def get_files_except_cases drop_invocation_only
          length_logged_invocation
          log_messages_append log_messages_report)
  qed
qed

lemma download_files_blind:
  assumes "\<And>r wf f t t'. client_download_file env r wf f t = client_download_file env r wf f t'"
      and "t1 \<noteq> []" and "t2 \<noteq> []"
  shows "drop (Suc (length (params ctx1)))
           (log_messages (snd (snd
              (download_files env ctx1 workflow file_names output_directory (Some t1) w))))
       = drop (Suc (length (params ctx2)))
           (log_messages (snd (snd
              (download_files env ctx2 workflow file_names output_directory (Some t2) w))))"
proof (cases "nonempty workflow")
  case None
  then show ?thesis
    using assms(2) assms(3)
    by (simp add: download_files_def nonempty_def drop_invocation_only log_messages_append)
next
  case (Some wname)
  have first: "nonempty (Some t1) = Some t1" and second: "nonempty (Some t2) = Some t2"
    using assms(2) assms(3) by (simp_all add: nonempty_def)
  show ?thesis
    using Some first second
      download_loop_blind[OF assms(1), of wname output_directory t1 file_names w t2]
    by (auto simp: download_files_def drop_invocation_only length_logged_invocation
        log_messages_append
        split: prod.splits)
qed

lemma upload_files_blind:
  assumes "\<And>r wf f t t'.
             client_upload_to_server env r wf f t = client_upload_to_server env r wf f t'"
      and "t1 \<noteq> []" and "t2 \<noteq> []"
  shows "drop (Suc (length (params ctx1)))
           (log_messages (snd (snd (upload_files env ctx1 workflow filenames (Some t1) w))))
       = drop (Suc (length (params ctx2)))
           (log_messages (snd (snd (upload_files env ctx2 workflow filenames (Some t2) w))))"
proof (cases "nonempty workflow")
  case None
  then show ?thesis
    using assms(2) assms(3)
    by (simp add: upload_files_def nonempty_def drop_invocation_only log_messages_append)
next
  case (Some wname)
  have first: "nonempty (Some t1) = Some t1" and second: "nonempty (Some t2) = Some t2"
    using assms(2) assms(3) by (simp_all add: nonempty_def)
  show ?thesis
    using Some first second upload_loop_blind[OF assms(1), of wname t1 filenames w t2]
    by (auto simp: upload_files_def drop_invocation_only length_logged_invocation
        log_messages_append
        split: prod.splits)
qed

section \<open>Properties of the specification\<close>

text \<open>
  C1. For each of the three commands (list, download, upload): when the access token is
  absent (\<^verbatim>\<open>None\<close>, or the empty string, which \<^verbatim>\<open>not access_token\<close> treats alike), the
  command prints the missing-token message in red on the error stream and nothing on the
  output stream, leaves the process with \<^verbatim>\<open>sys.exit(1)\<close>, so that the exit status is 1,
  calls no method of the client and leaves the world as it was.
\<close>

theorem missing_token_exits_1:
  assumes "nonempty access_token = None"
  shows "(case get_files env ctx workflow filter_cols output_format access_token w of
            (result, w', tr) \<Rightarrow>
              result = Exit 1 \<and> exit_status result = 1 \<and> w' = w \<and> remote_calls tr = []
              \<and> echoed Stderr tr = [(Some Red, missing_access_token env)]
              \<and> echoed Stdout tr = [])
       \<and> (case download_files env ctx workflow file_names output_directory access_token w of
            (result, w', tr) \<Rightarrow>
              result = Exit 1 \<and> exit_status result = 1 \<and> w' = w \<and> remote_calls tr = []
              \<and> echoed Stderr tr = [(Some Red, missing_access_token env)]
              \<and> echoed Stdout tr = [])
       \<and> (case upload_files env ctx workflow filenames access_token w of
            (result, w', tr) \<Rightarrow>
              result = Exit 1 \<and> exit_status result = 1 \<and> w' = w \<and> remote_calls tr = []
              \<and> echoed Stderr tr = [(Some Red, missing_access_token env)]
              \<and> echoed Stdout tr = [])"
  using assms
  by (simp add: get_files_def download_files_def upload_files_def remote_calls_append
      echoed_append remote_calls_log_invocation echoed_log_invocation)

text \<open>
  The list command run with neither the flag nor \<^verbatim>\<open>REANA_ACCESS_TOKEN\<close>: the whole trace.
\<close>

theorem missing_token_exits_1_witness:
  "nonempty (option_value None None) = None
   \<and> get_files example_env (list_ctx (Some ''wf'') [] None (option_value None None))
        (Some ''wf'') [] None (option_value None None) example_world
      = (Exit 1, example_world,
         [LogDebug ''command: reana-client.files.list'', LogDebug ''workflow: wf'',
          LogDebug ''_filter: ()'', LogDebug ''output_format: None'',
          LogDebug ''access_token: None'',
          Echo Stderr (Some Red) ''Please provide your access token''])"
proof -
  have absent: "nonempty (option_value None None) = None"
    by (simp add: nonempty_def option_value_def)
  show ?thesis
    using absent
      missing_token_exits_1[OF absent, where env = example_env
        and ctx = "list_ctx (Some ''wf'') [] None (option_value None None)"
        and workflow = "Some ''wf''" and filter_cols = "[]" and output_format = None
        and w = example_world]
    by (simp add: get_files_def log_invocation_def list_ctx_def py_opt_def option_value_def
        str_tuple_def example_env_def)
qed

text \<open>
  C3. For each of the three commands: when the access token is present and the workflow
  is absent (no flag and no \<^verbatim>\<open>REANA_WORKON\<close>, or the empty string), the command prints the
  fixed missing-workflow message in red on the error stream, calls no method of the
  client, and returns, so that the exit status is 0 and not the 1 of a missing token.
\<close>

theorem missing_workflow_returns:
  assumes "nonempty access_token = Some tok" and "nonempty workflow = None"
  shows "(case get_files env ctx workflow filter_cols output_format access_token w of
            (result, w', tr) \<Rightarrow>
              result = Returned \<and> exit_status result = 0 \<and> w' = w \<and> remote_calls tr = []
              \<and> echoed Stderr tr = [(Some Red, missing_workflow)] \<and> echoed Stdout tr = [])
       \<and> (case download_files env ctx workflow file_names output_directory access_token w of
            (result, w', tr) \<Rightarrow>
              result = Returned \<and> exit_status result = 0 \<and> w' = w \<and> remote_calls tr = []
              \<and> echoed Stderr tr = [(Some Red, missing_workflow)] \<and> echoed Stdout tr = [])
       \<and> (case upload_files env ctx workflow filenames access_token w of
            (result, w', tr) \<Rightarrow>
              result = Returned \<and> exit_status result = 0 \<and> w' = w \<and> remote_calls tr = []
              \<and> echoed Stderr tr = [(Some Red, missing_workflow)] \<and> echoed Stdout tr = [])"
  using assms
  by (simp add: get_files_def download_files_def upload_files_def remote_calls_append
      echoed_append remote_calls_log_invocation echoed_log_invocation)

text \<open>The download command run with a token and no workflow: the whole trace.\<close>

theorem missing_workflow_returns_witness:
  "nonempty (Some ''secret'') = Some ''secret'' \<and> nonempty (option_value None None) = None
   \<and> download_files example_env
        (download_ctx (option_value None None) [''a.txt''] ''/tmp/x'' (Some ''secret''))
        (option_value None None) [''a.txt''] ''/tmp/x'' (Some ''secret'') example_world
      = (Returned, example_world,
         [LogDebug ''command: reana-client.files.download'',
          LogDebug (''file_: ('' @ [CHR 0x27] @ ''a.txt'' @ [CHR 0x27] @ '',)''),
          LogDebug ''workflow: None'', LogDebug ''output_directory: /tmp/x'',
          LogDebug ''access_token: secret'',
          Echo Stderr (Some Red) missing_workflow])"
proof -
  have token: "nonempty (Some ''secret'') = Some ''secret''"
    by (simp add: nonempty_def)
  have absent: "nonempty (option_value None None) = None"
    by (simp add: nonempty_def option_value_def)
  show ?thesis
    using token absent
      missing_workflow_returns[OF token absent, where env = example_env
        and ctx = "download_ctx (option_value None None) [''a.txt''] ''/tmp/x'' (Some ''secret'')"
        and file_names = "[''a.txt'']" and output_directory = "''/tmp/x''"
        and w = example_world]
    by (simp add: download_files_def log_invocation_def download_ctx_def py_opt_def
        option_value_def str_tuple_def example_env_def)
qed

text \<open>
  C10. The download and the upload command, run with an access token and a workflow and
  with no FILE argument: no method of the client is called, nothing is printed on either
  stream, the world is as it was, and the command returns with exit status 0.
\<close>

theorem no_files_no_calls:
  assumes "nonempty access_token = Some tok" and "nonempty workflow = Some wname"
  shows "(case download_files env ctx workflow [] output_directory access_token w of
            (result, w', tr) \<Rightarrow>
              result = Returned \<and> exit_status result = 0 \<and> w' = w \<and> remote_calls tr = []
              \<and> echoed Stdout tr = [] \<and> echoed Stderr tr = [])
       \<and> (case upload_files env ctx workflow [] access_token w of
            (result, w', tr) \<Rightarrow>
              result = Returned \<and> exit_status result = 0 \<and> w' = w \<and> remote_calls tr = []
              \<and> echoed Stdout tr = [] \<and> echoed Stderr tr = [])"
  using assms
  by (simp add: download_files_def upload_files_def remote_calls_log_invocation
      echoed_log_invocation)

text \<open>The upload command run with no file: only the invocation is logged.\<close>

theorem no_files_no_calls_witness:
  "nonempty (Some ''secret'') = Some ''secret'' \<and> nonempty (Some ''wf'') = Some ''wf''
   \<and> upload_files example_env (upload_ctx (Some ''wf'') [] (Some ''secret''))
        (Some ''wf'') [] (Some ''secret'') example_world
      = (Returned, example_world,
         [LogDebug ''command: reana-client.files.upload'', LogDebug ''filenames: ()'',
          LogDebug ''workflow: wf'', LogDebug ''access_token: secret''])"
proof -
  have token: "nonempty (Some ''secret'') = Some ''secret''"
    by (simp add: nonempty_def)
  have wflow: "nonempty (Some ''wf'') = Some ''wf''"
    by (simp add: nonempty_def)
  show ?thesis
    using token wflow
      no_files_no_calls[OF token wflow, where env = example_env
        and ctx = "upload_ctx (Some ''wf'') [] (Some ''secret'')" and w = example_world]
    by (simp add: upload_files_def log_invocation_def upload_ctx_def py_opt_def
        str_tuple_def example_env_def)
qed

text \<open>
  C5. The upload command treats its files one by one. With a token and a workflow, the
  command returns, and the calls of \<^verbatim>\<open>upload_to_server\<close> it made are exactly one for every
  file name, in order, whatever happened to the files before. The loop over a file and
  the rest is the step for the file followed by the loop over the rest from the world
  the step left, for every result of the step. When the call for a file raises, the step
  logs traceback and text at debug level and prints one red line on the error stream: for
  a \<^verbatim>\<open>FileUploadError\<close> the line ends with the text of the exception; for any other
  exception it is built from the file name alone.
\<close>

theorem upload_files_independent:
  assumes "nonempty access_token = Some tok" and "nonempty workflow = Some wname"
  shows "upload_files env ctx workflow filenames access_token w
           = (case upload_loop env wname tok filenames w of
                (result, w', tr) \<Rightarrow> (result, w', log_invocation env ctx @ tr))
       \<and> (case upload_files env ctx workflow filenames access_token w of
            (result, w', tr) \<Rightarrow>
              result = Returned
              \<and> remote_calls tr = map (\<lambda>filename. UploadToServer wname filename tok) filenames)
       \<and> upload_loop env wname tok (filename # rest) w0
           = (case upload_one env wname tok filename w0 of
                (raised, w1, tr1) \<Rightarrow>
                  (case upload_loop env wname tok rest w1 of
                     (result, w2, tr2) \<Rightarrow> (result, w2, tr1 @ tr2)))
       \<and> (\<forall>e r. client_upload_to_server env (remote w0) wname filename tok = (Inl e, r) \<longrightarrow>
             upload_one env wname tok filename w0 =
               (None, w0\<lparr>remote := r\<rparr>,
                [Remote (UploadToServer wname filename tok), LogDebug (format_exc env e),
                 LogDebug (exn_str e),
                 Echo Stderr (Some Red)
                   (if exn_class e = FileUploadError
                    then ''Something went wrong while uploading '' @ filename @ ''.''
                           @ [newline] @ exn_str e
                    else ''Something went wrong while uploading '' @ filename)]))"
proof -
  obtain result w' tr where loop: "upload_loop env wname tok filenames w = (result, w', tr)"
    by (cases "upload_loop env wname tok filenames w") auto
  have command: "upload_files env ctx workflow filenames access_token w
                   = (result, w', log_invocation env ctx @ tr)"
    using assms loop by (simp add: upload_files_def)
  have "result = Returned"
    using upload_loop_returns[of env wname tok filenames w] loop by simp
  moreover have "remote_calls tr = map (\<lambda>filename. UploadToServer wname filename tok) filenames"
    using upload_loop_calls[of env wname tok filenames w] loop by simp
  ultimately have observed:
    "case upload_files env ctx workflow filenames access_token w of
       (result, w', tr) \<Rightarrow>
         result = Returned
         \<and> remote_calls tr = map (\<lambda>filename. UploadToServer wname filename tok) filenames"
    by (simp add: command remote_calls_append remote_calls_log_invocation)
  have linked: "upload_files env ctx workflow filenames access_token w
                  = (case upload_loop env wname tok filenames w of
                       (result, w', tr) \<Rightarrow> (result, w', log_invocation env ctx @ tr))"
    by (simp add: command loop)
  show ?thesis
    using linked observed upload_loop_Cons[of env wname tok filename rest w0]
      upload_one_raised[of env w0 wname filename tok]
    by blast
qed

text \<open>
  Three files in one invocation: the first is refused with a \<^verbatim>\<open>FileUploadError\<close>, the second
  fails with another exception, the third is uploaded all the same.
\<close>

theorem upload_files_independent_witness:
  "nonempty (Some ''secret'') = Some ''secret'' \<and> nonempty (Some ''wf'') = Some ''wf''
   \<and> upload_files example_env
        (upload_ctx (Some ''wf'') [''/data/bad.txt'', ''/data/odd.txt'', ''/data/ok.txt'']
           (Some ''secret''))
        (Some ''wf'') [''/data/bad.txt'', ''/data/odd.txt'', ''/data/ok.txt'']
        (Some ''secret'') example_world
      = (Returned, example_world,
         log_invocation example_env
           (upload_ctx (Some ''wf'') [''/data/bad.txt'', ''/data/odd.txt'', ''/data/ok.txt'']
              (Some ''secret''))
         @ [Remote (UploadToServer ''wf'' ''/data/bad.txt'' ''secret''),
            LogDebug ''Traceback (most recent call last): rejected'', LogDebug ''rejected'',
            Echo Stderr (Some Red)
              (''Something went wrong while uploading /data/bad.txt.'' @ [newline] @ ''rejected''),
            Remote (UploadToServer ''wf'' ''/data/odd.txt'' ''secret''),
            LogDebug ''Traceback (most recent call last): boom'', LogDebug ''boom'',
            Echo Stderr (Some Red) ''Something went wrong while uploading /data/odd.txt'',
            Remote (UploadToServer ''wf'' ''/data/ok.txt'' ''secret''),
            Echo Stdout (Some Green) ''File /data/ok.txt was successfully uploaded.''])"
proof -
  have token: "nonempty (Some ''secret'') = Some ''secret''"
    by (simp add: nonempty_def)
  have wflow: "nonempty (Some ''wf'') = Some ''wf''"
    by (simp add: nonempty_def)
  show ?thesis
    using token wflow
      upload_files_independent[OF token wflow, where env = example_env
        and ctx = "upload_ctx (Some ''wf'') [''/data/bad.txt'', ''/data/odd.txt'', ''/data/ok.txt'']
                     (Some ''secret'')"
        and filenames = "[''/data/bad.txt'', ''/data/odd.txt'', ''/data/ok.txt'']"
        and w = example_world and filename = "''/data/bad.txt''" and rest = "[]"
        and ?w0.0 = example_world]
    by (simp add: upload_one_def upload_try_def upload_except_def report_def example_env_def
        example_world_def)
qed





text \<open>
  C2. In the download command a remote failure is to be reported as ``could not be
  downloaded'' with the text of the exception, a failure to write as ``could not be
  written'', and the other files are processed in both cases. The handlers tell the two
  apart by the class of the exception, \<^verbatim>\<open>except OSError\<close> first, and the \<^verbatim>\<open>try\<close> holds the
  remote call too: when \<^verbatim>\<open>download_file\<close> raises an \<^verbatim>\<open>OSError\<close> (here the
  \<^verbatim>\<open>ConnectionError\<close> of a refused connection, for \<^verbatim>\<open>net.txt\<close>), the file is reported as
  ``could not be written'', without the text of the exception, though nothing was written.
  The next file, \<^verbatim>\<open>a.txt\<close>, is processed all the same.
\<close>

theorem download_connection_error_reported_as_write_failure:
  "client_download_file example_env (remote example_world) ''wf'' ''net.txt'' ''secret''
     = (Inl \<lparr>exn_class = OSError, exn_str = ''Connection refused''\<rparr>, ())
   \<and> download_files example_env
        (download_ctx (Some ''wf'') [''net.txt'', ''a.txt''] ''/tmp/x'' (Some ''secret''))
        (Some ''wf'') [''net.txt'', ''a.txt''] ''/tmp/x'' (Some ''secret'') example_world
      = (Returned,
         \<lparr>remote = (), disk = example_disk\<lparr>fs_files := [''/tmp/x/a.txt'' \<mapsto> ''payload'']\<rparr>\<rparr>,
         log_invocation example_env
           (download_ctx (Some ''wf'') [''net.txt'', ''a.txt''] ''/tmp/x'' (Some ''secret''))
         @ [Remote (DownloadFile ''wf'' ''net.txt'' ''secret''),
            LogDebug ''Traceback (most recent call last): Connection refused'',
            LogDebug ''Connection refused'',
            Echo Stderr (Some Red) ''File net.txt could not be written.'',
            Remote (DownloadFile ''wf'' ''a.txt'' ''secret''),
            LogInfo ''a.txt binary file downloaded ... writing to /tmp/x'',
            OpenWrite ''/tmp/x/a.txt'' ''payload'',
            Echo Stdout (Some Green) ''File a.txt downloaded to /tmp/x.''])"
proof -
  have refused: "client_download_file example_env (remote example_world) ''wf'' ''net.txt''
                   ''secret''
                 = (Inl \<lparr>exn_class = OSError, exn_str = ''Connection refused''\<rparr>, ())"
    by (simp add: example_env_def)
  have net: "download_one example_env ''wf'' ''/tmp/x'' ''secret'' ''net.txt'' example_world
      = (None, example_world,
         [Remote (DownloadFile ''wf'' ''net.txt'' ''secret''),
          LogDebug ''Traceback (most recent call last): Connection refused'',
          LogDebug ''Connection refused'',
          Echo Stderr (Some Red) ''File net.txt could not be written.''])"
    using download_one_raised[OF refused, of "''/tmp/x''"]
    by (simp add: example_env_def example_world_def)
  have path: "os_path_join ''/tmp/x'' ''a.txt'' = ''/tmp/x/a.txt''"
    by (simp add: os_path_join_def sep_def)
  have dir: "os_path_dirname ''/tmp/x/a.txt'' = ''/tmp/x''"
    by (simp add: os_path_dirname_def os_path_split_def rstrip_sep_def sep_def)
  have written: "write_output ''/tmp/x'' ''a.txt'' ''payload'' (disk example_world)
      = (None, example_disk\<lparr>fs_files := [''/tmp/x/a.txt'' \<mapsto> ''payload'']\<rparr>,
         [OpenWrite ''/tmp/x/a.txt'' ''payload''])"
    by (simp add: write_output_def Let_def path dir os_path_exists_def open_wb_write_def sep_def
        example_disk_def example_world_def)
  have fetched: "client_download_file example_env (remote example_world) ''wf'' ''a.txt''
                   ''secret'' = (Inr ''payload'', ())"
    by (simp add: example_env_def)
  have a: "download_one example_env ''wf'' ''/tmp/x'' ''secret'' ''a.txt'' example_world
      = (None,
         \<lparr>remote = (), disk = example_disk\<lparr>fs_files := [''/tmp/x/a.txt'' \<mapsto> ''payload'']\<rparr>\<rparr>,
         [Remote (DownloadFile ''wf'' ''a.txt'' ''secret''),
          LogInfo ''a.txt binary file downloaded ... writing to /tmp/x'',
          OpenWrite ''/tmp/x/a.txt'' ''payload'',
          Echo Stdout (Some Green) ''File a.txt downloaded to /tmp/x.''])"
    using download_one_written[OF fetched written] by simp
  show ?thesis
    using refused net a by (simp add: download_files_def nonempty_def)
qed



text \<open>
  C7. No exception leaves a command. For every input, each of the three commands either
  leaves the process with status 1, which it does exactly when the access token is
  missing, or it returns. In the list command, an exception that leaves the body of the
  \<^verbatim>\<open>try\<close> is logged at debug level (traceback, then text) and reported by one red line on
  the error stream that names the workflow and ends with the text of the exception; and
  an exception raised by the remote call, by \<^verbatim>\<open>click_table_printer\<close>, by \<^verbatim>\<open>Dataset.subset\<close> or
  by \<^verbatim>\<open>Dataset.export\<close> does leave the body of the \<^verbatim>\<open>try\<close> in this way.
\<close>

theorem errors_stay_inside_commands:
  "(nonempty access_token = None
      \<longrightarrow> fst (get_files env ctx workflow filter_cols output_format access_token w) = Exit 1
        \<and> fst (download_files env ctx workflow file_names output_directory access_token w)
            = Exit 1
        \<and> fst (upload_files env ctx workflow filenames access_token w) = Exit 1)
   \<and> (nonempty access_token \<noteq> None
      \<longrightarrow> fst (get_files env ctx workflow filter_cols output_format access_token w) = Returned
        \<and> fst (download_files env ctx workflow file_names output_directory access_token w)
            = Returned
        \<and> fst (upload_files env ctx workflow filenames access_token w) = Returned)
   \<and> (\<forall>tok wname e w' tr.
         nonempty access_token = Some tok \<and> nonempty workflow = Some wname
         \<and> get_files_try env wname filter_cols output_format tok w = (Some e, w', tr)
       \<longrightarrow> get_files env ctx workflow filter_cols output_format access_token w
             = (Returned, w',
                log_invocation env ctx @ [LogInfo (''Workflow \"'' @ wname @ ''\" selected'')]
                @ tr
                @ [LogDebug (format_exc env e), LogDebug (exn_str e),
                   Echo Stderr (Some Red)
                     (''Something went wrong while retrieving file list for workflow '' @ wname
                        @ '':'' @ [newline] @ exn_str e)]))
   \<and> (\<forall>tok wname e r.
         client_get_files env (remote w) wname tok = (Inl e, r)
       \<longrightarrow> get_files_try env wname filter_cols output_format tok w
             = (Some e, w\<lparr>remote := r\<rparr>, [Remote (GetFiles wname tok)]))
   \<and> (\<forall>tok wname response r data lines e.
         client_get_files env (remote w) wname tok = (Inr response, r)
         \<and> project_rows (repr_str env) response = Inr data
         \<and> nonempty output_format = None
         \<and> click_table_printer env headers filter_cols data = (lines, Some e)
       \<longrightarrow> get_files_try env wname filter_cols output_format tok w
             = (Some e, w\<lparr>remote := r\<rparr>,
                Remote (GetFiles wname tok) # map (Echo Stdout None) lines))
   \<and> (\<forall>tok wname response r data fmt e.
         client_get_files env (remote w) wname tok = (Inr response, r)
         \<and> project_rows (repr_str env) response = Inr data
         \<and> nonempty output_format = Some fmt \<and> filter_cols \<noteq> []
         \<and> tablib_subset env \<lparr>ds_headers = headers, ds_rows = data\<rparr> filter_cols = Inl e
       \<longrightarrow> get_files_try env wname filter_cols output_format tok w
             = (Some e, w\<lparr>remote := r\<rparr>, [Remote (GetFiles wname tok)]))
   \<and> (\<forall>tok wname response r data fmt tablib_data e.
         client_get_files env (remote w) wname tok = (Inr response, r)
         \<and> project_rows (repr_str env) response = Inr data
         \<and> nonempty output_format = Some fmt
         \<and> (if filter_cols \<noteq> []
             then tablib_subset env \<lparr>ds_headers = headers, ds_rows = data\<rparr> filter_cols
             else Inr (Some \<lparr>ds_headers = headers, ds_rows = data\<rparr>)) = Inr tablib_data
         \<and> export env tablib_data fmt = Inl e
       \<longrightarrow> get_files_try env wname filter_cols output_format tok w
             = (Some e, w\<lparr>remote := r\<rparr>, [Remote (GetFiles wname tok)]))"
proof -
  have exits: "nonempty access_token = None
      \<longrightarrow> fst (get_files env ctx workflow filter_cols output_format access_token w) = Exit 1
        \<and> fst (download_files env ctx workflow file_names output_directory access_token w)
            = Exit 1
        \<and> fst (upload_files env ctx workflow filenames access_token w) = Exit 1"
    by (simp add: get_files_def download_files_def upload_files_def)
  have returns: "nonempty access_token \<noteq> None
      \<longrightarrow> fst (get_files env ctx workflow filter_cols output_format access_token w) = Returned
        \<and> fst (download_files env ctx workflow file_names output_directory access_token w)
            = Returned
        \<and> fst (upload_files env ctx workflow filenames access_token w) = Returned"
  proof
    assume present: "nonempty access_token \<noteq> None"
    obtain tok where token: "nonempty access_token = Some tok"
      using present by (cases "nonempty access_token") auto
    show "fst (get_files env ctx workflow filter_cols output_format access_token w) = Returned
        \<and> fst (download_files env ctx workflow file_names output_directory access_token w)
            = Returned
        \<and> fst (upload_files env ctx workflow filenames access_token w) = Returned"
      by (simp add: get_files_returns[OF token] download_files_returns[OF token]
          upload_files_returns[OF token])
  qed
  have reported: "\<forall>tok wname e w' tr.
         nonempty access_token = Some tok \<and> nonempty workflow = Some wname
         \<and> get_files_try env wname filter_cols output_format tok w = (Some e, w', tr)
       \<longrightarrow> get_files env ctx workflow filter_cols output_format access_token w
             = (Returned, w',
                log_invocation env ctx @ [LogInfo (''Workflow \"'' @ wname @ ''\" selected'')]
                @ tr
                @ [LogDebug (format_exc env e), LogDebug (exn_str e),
                   Echo Stderr (Some Red)
                     (''Something went wrong while retrieving file list for workflow '' @ wname
                        @ '':'' @ [newline] @ exn_str e)])"
  proof (intro allI impI)
    fix tok wname e w' tr
    assume a: "nonempty access_token = Some tok \<and> nonempty workflow = Some wname
         \<and> get_files_try env wname filter_cols output_format tok w = (Some e, w', tr)"
    from a have a1: "nonempty access_token = Some tok" by (rule conjunct1)
    from a have a2: "nonempty workflow = Some wname" by simp
    from a have a3: "get_files_try env wname filter_cols output_format tok w = (Some e, w', tr)"
      by simp
    show "get_files env ctx workflow filter_cols output_format access_token w
             = (Returned, w',
                log_invocation env ctx @ [LogInfo (''Workflow \"'' @ wname @ ''\" selected'')]
                @ tr
                @ [LogDebug (format_exc env e), LogDebug (exn_str e),
                   Echo Stderr (Some Red)
                     (''Something went wrong while retrieving file list for workflow '' @ wname
                        @ '':'' @ [newline] @ exn_str e)])"
      by (rule get_files_raised[OF a1 a2 a3])
  qed
  have remote: "\<forall>tok wname e r.
         client_get_files env (remote w) wname tok = (Inl e, r)
       \<longrightarrow> get_files_try env wname filter_cols output_format tok w
             = (Some e, w\<lparr>remote := r\<rparr>, [Remote (GetFiles wname tok)])"
    by (intro allI impI) (rule get_files_try_remote_raises)
  have printer: "\<forall>tok wname response r data lines e.
         client_get_files env (remote w) wname tok = (Inr response, r)
         \<and> project_rows (repr_str env) response = Inr data
         \<and> nonempty output_format = None
         \<and> click_table_printer env headers filter_cols data = (lines, Some e)
       \<longrightarrow> get_files_try env wname filter_cols output_format tok w
             = (Some e, w\<lparr>remote := r\<rparr>,
                Remote (GetFiles wname tok) # map (Echo Stdout None) lines)"
  proof (intro allI impI)
    fix tok wname response r data lines e
    assume a: "client_get_files env (remote w) wname tok = (Inr response, r)
         \<and> project_rows (repr_str env) response = Inr data
         \<and> nonempty output_format = None
         \<and> click_table_printer env headers filter_cols data = (lines, Some e)"
    show "get_files_try env wname filter_cols output_format tok w
             = (Some e, w\<lparr>remote := r\<rparr>,
                Remote (GetFiles wname tok) # map (Echo Stdout None) lines)"
      by (rule get_files_try_printer_raises[of env w wname tok response r data])
         (simp_all add: a)
  qed
  have subset: "\<forall>tok wname response r data fmt e.
         client_get_files env (remote w) wname tok = (Inr response, r)
         \<and> project_rows (repr_str env) response = Inr data
         \<and> nonempty output_format = Some fmt \<and> filter_cols \<noteq> []
         \<and> tablib_subset env \<lparr>ds_headers = headers, ds_rows = data\<rparr> filter_cols = Inl e
       \<longrightarrow> get_files_try env wname filter_cols output_format tok w
             = (Some e, w\<lparr>remote := r\<rparr>, [Remote (GetFiles wname tok)])"
  proof (intro allI impI)
    fix tok wname response r data fmt e
    assume a: "client_get_files env (remote w) wname tok = (Inr response, r)
         \<and> project_rows (repr_str env) response = Inr data
         \<and> nonempty output_format = Some fmt \<and> filter_cols \<noteq> []
         \<and> tablib_subset env \<lparr>ds_headers = headers, ds_rows = data\<rparr> filter_cols = Inl e"
    show "get_files_try env wname filter_cols output_format tok w
             = (Some e, w\<lparr>remote := r\<rparr>, [Remote (GetFiles wname tok)])"
      by (rule get_files_try_subset_raises[of env w wname tok response r data _ fmt])
         (simp_all add: a)
  qed
  have exported: "\<forall>tok wname response r data fmt tablib_data e.
         client_get_files env (remote w) wname tok = (Inr response, r)
         \<and> project_rows (repr_str env) response = Inr data
         \<and> nonempty output_format = Some fmt
         \<and> (if filter_cols \<noteq> []
             then tablib_subset env \<lparr>ds_headers = headers, ds_rows = data\<rparr> filter_cols
             else Inr (Some \<lparr>ds_headers = headers, ds_rows = data\<rparr>)) = Inr tablib_data
         \<and> export env tablib_data fmt = Inl e
       \<longrightarrow> get_files_try env wname filter_cols output_format tok w
             = (Some e, w\<lparr>remote := r\<rparr>, [Remote (GetFiles wname tok)])"
  proof (intro allI impI)
    fix tok wname response r data fmt tablib_data e
    assume a: "client_get_files env (remote w) wname tok = (Inr response, r)
         \<and> project_rows (repr_str env) response = Inr data
         \<and> nonempty output_format = Some fmt
         \<and> (if filter_cols \<noteq> []
             then tablib_subset env \<lparr>ds_headers = headers, ds_rows = data\<rparr> filter_cols
             else Inr (Some \<lparr>ds_headers = headers, ds_rows = data\<rparr>)) = Inr tablib_data
         \<and> export env tablib_data fmt = Inl e"
    show "get_files_try env wname filter_cols output_format tok w
             = (Some e, w\<lparr>remote := r\<rparr>, [Remote (GetFiles wname tok)])"
      by (rule get_files_try_export_raises[of env w wname tok response r data _ fmt _
            tablib_data])
         (simp_all add: a)
  qed
  show ?thesis
    by (intro conjI) (rule exits, rule returns, rule reported, rule remote, rule printer,
        rule subset, rule exported)
qed

text \<open>
  The list command for a workflow the service does not know: the exception of the remote
  call is reported on the error stream, and the command returns.
\<close>

theorem errors_stay_inside_commands_witness:
  "nonempty (Some ''secret'') = Some ''secret'' \<and> nonempty (Some ''nowf'') = Some ''nowf''
   \<and> client_get_files example_env (remote example_world) ''nowf'' ''secret''
       = (Inl \<lparr>exn_class = OtherException, exn_str = ''no such workflow''\<rparr>, ())
   \<and> get_files example_env (list_ctx (Some ''nowf'') [] None (Some ''secret''))
        (Some ''nowf'') [] None (Some ''secret'') example_world
      = (Returned, example_world,
         log_invocation example_env (list_ctx (Some ''nowf'') [] None (Some ''secret''))
         @ [LogInfo ''Workflow \"nowf\" selected'', Remote (GetFiles ''nowf'' ''secret''),
            LogDebug ''Traceback (most recent call last): no such workflow'',
            LogDebug ''no such workflow'',
            Echo Stderr (Some Red)
              (''Something went wrong while retrieving file list for workflow nowf:''
                 @ [newline] @ ''no such workflow'')])"
proof -
  have token: "nonempty (Some ''secret'') = Some ''secret''"
    by (simp add: nonempty_def)
  have wflow: "nonempty (Some ''nowf'') = Some ''nowf''"
    by (simp add: nonempty_def)
  have raised: "client_get_files example_env (remote example_world) ''nowf'' ''secret''
       = (Inl \<lparr>exn_class = OtherException, exn_str = ''no such workflow''\<rparr>, ())"
    by (simp add: example_env_def)
  note all = errors_stay_inside_commands[where env = example_env and w = example_world
        and access_token = "Some ''secret''" and workflow = "Some ''nowf''"
        and filter_cols = "[]" and output_format = None
        and ctx = "list_ctx (Some ''nowf'') [] None (Some ''secret'')"]
  note reported = all[THEN conjunct2, THEN conjunct2, THEN conjunct1, rule_format]
  note remote = all[THEN conjunct2, THEN conjunct2, THEN conjunct2, THEN conjunct1, rule_format]
  have body: "get_files_try example_env ''nowf'' [] None ''secret'' example_world
                = (Some \<lparr>exn_class = OtherException, exn_str = ''no such workflow''\<rparr>,
                   example_world\<lparr>remote := ()\<rparr>, [Remote (GetFiles ''nowf'' ''secret'')])"
    by (rule remote[OF raised])
  have run: "get_files example_env (list_ctx (Some ''nowf'') [] None (Some ''secret''))
        (Some ''nowf'') [] None (Some ''secret'') example_world
      = (Returned, example_world\<lparr>remote := ()\<rparr>,
         log_invocation example_env (list_ctx (Some ''nowf'') [] None (Some ''secret''))
         @ [LogInfo (''Workflow \"'' @ ''nowf'' @ ''\" selected'')]
         @ [Remote (GetFiles ''nowf'' ''secret'')]
         @ [LogDebug (format_exc example_env
                        \<lparr>exn_class = OtherException, exn_str = ''no such workflow''\<rparr>),
            LogDebug (exn_str \<lparr>exn_class = OtherException, exn_str = ''no such workflow''\<rparr>),
            Echo Stderr (Some Red)
              (''Something went wrong while retrieving file list for workflow '' @ ''nowf''
                 @ '':'' @ [newline]
                 @ exn_str \<lparr>exn_class = OtherException, exn_str = ''no such workflow''\<rparr>)])"
    by (rule reported[OF conjI[OF token conjI[OF wflow body]]])
  show ?thesis
    using token wflow raised run
    by (simp add: example_env_def example_world_def)
qed

text \<open>
  C8, as stated: no log message of the module holds the value of the access token. The
  list command run with the token \<^verbatim>\<open>secret\<close> logs \<^verbatim>\<open>access_token: secret\<close> at debug level: the
  loop over \<^verbatim>\<open>ctx.params\<close> that opens every command logs each parameter with its value, and
  the token is one of the parameters.
\<close>

theorem access_token_logged_counterexample:
  "log_messages (snd (snd
      (get_files example_env (list_ctx (Some ''wf'') [] None (Some ''secret''))
         (Some ''wf'') [] None (Some ''secret'') example_world)))
     = [''command: reana-client.files.list'', ''workflow: wf'', ''_filter: ()'',
        ''output_format: None'', ''access_token: secret'', ''Workflow \"wf\" selected'']
   \<and> occurs_in ''secret'' ''access_token: secret''"
proof -
  have ten: "str_int 10 = ''10''"
    by (simp add: str_int_def str_nat.simps[of 10] str_nat.simps[of "Suc 0"] digit_char_def)
  have run: "log_messages (snd (snd
      (get_files example_env (list_ctx (Some ''wf'') [] None (Some ''secret''))
         (Some ''wf'') [] None (Some ''secret'') example_world)))
     = [''command: reana-client.files.list'', ''workflow: wf'', ''_filter: ()'',
        ''output_format: None'', ''access_token: secret'', ''Workflow \"wf\" selected'']"
    by (simp add: get_files_def get_files_try_def log_invocation_def list_ctx_def py_opt_def
        nonempty_def str_tuple_def example_env_def example_world_def example_files_def
        project_row_def getitem_def headers_def ten)
  have found: "occurs_in ''secret'' ''access_token: secret''"
    by simp
  show ?thesis
    using run found by (rule conjI)
qed

text \<open>
  C8, amended. Every command logs the parameters of its invocation at debug level, the
  access token among them: when the context holds the token \<open>tok\<close> as the parameter
  \<^verbatim>\<open>access_token\<close>, the message \<^verbatim>\<open>access_token: tok\<close> is logged, by each of the three commands
  and for every input. No other log message is built from the token: for a client whose
  answers do not depend on the token, the log messages that follow the parameters are the
  same for any two tokens.
\<close>

theorem access_token_logged_with_parameters_only:
  "(\<forall>tok. (''access_token'', PyStr tok) \<in> set (params ctx)
      \<longrightarrow> ''access_token: '' @ tok
            \<in> set (log_messages (snd (snd
                  (get_files env ctx workflow filter_cols output_format access_token w))))
        \<and> ''access_token: '' @ tok
            \<in> set (log_messages (snd (snd
                  (download_files env ctx workflow file_names output_directory access_token w))))
        \<and> ''access_token: '' @ tok
            \<in> set (log_messages (snd (snd
                  (upload_files env ctx workflow filenames access_token w)))))
   \<and> ((\<forall>r wf t t'. client_get_files env r wf t = client_get_files env r wf t')
        \<and> (\<forall>r wf f t t'. client_download_file env r wf f t = client_download_file env r wf f t')
        \<and> (\<forall>r wf f t t'.
              client_upload_to_server env r wf f t = client_upload_to_server env r wf f t')
        \<and> t1 \<noteq> [] \<and> t2 \<noteq> []
      \<longrightarrow> drop (Suc (length (params ctx1)))
            (log_messages (snd (snd
               (get_files env ctx1 workflow filter_cols output_format (Some t1) w))))
          = drop (Suc (length (params ctx2)))
              (log_messages (snd (snd
                 (get_files env ctx2 workflow filter_cols output_format (Some t2) w))))
        \<and> drop (Suc (length (params ctx1)))
            (log_messages (snd (snd
               (download_files env ctx1 workflow file_names output_directory (Some t1) w))))
          = drop (Suc (length (params ctx2)))
              (log_messages (snd (snd
                 (download_files env ctx2 workflow file_names output_directory (Some t2) w))))
        \<and> drop (Suc (length (params ctx1)))
            (log_messages (snd (snd (upload_files env ctx1 workflow filenames (Some t1) w))))
          = drop (Suc (length (params ctx2)))
              (log_messages (snd (snd (upload_files env ctx2 workflow filenames (Some t2) w)))))"
proof (rule conjI)
  show "\<forall>tok. (''access_token'', PyStr tok) \<in> set (params ctx)
      \<longrightarrow> ''access_token: '' @ tok
            \<in> set (log_messages (snd (snd
                  (get_files env ctx workflow filter_cols output_format access_token w))))
        \<and> ''access_token: '' @ tok
            \<in> set (log_messages (snd (snd
                  (download_files env ctx workflow file_names output_directory access_token w))))
        \<and> ''access_token: '' @ tok
            \<in> set (log_messages (snd (snd
                  (upload_files env ctx workflow filenames access_token w))))"
  proof (intro allI impI)
    fix tok
    assume held: "(''access_token'', PyStr tok) \<in> set (params ctx)"
    have logged: "''access_token: '' @ tok \<in> set (log_messages (log_invocation env ctx @ tr))"
      for tr
      using parameter_logged[OF held, of env tr] by simp
    obtain tr1 where
      "snd (snd (get_files env ctx workflow filter_cols output_format access_token w))
         = log_invocation env ctx @ tr1"
      using get_files_starts by blast
    moreover obtain tr2 where
      "snd (snd (download_files env ctx workflow file_names output_directory access_token w))
         = log_invocation env ctx @ tr2"
      using download_files_starts by blast
    moreover obtain tr3 where
      "snd (snd (upload_files env ctx workflow filenames access_token w))
         = log_invocation env ctx @ tr3"
      using upload_files_starts by blast
    ultimately show "''access_token: '' @ tok
            \<in> set (log_messages (snd (snd
                  (get_files env ctx workflow filter_cols output_format access_token w))))
        \<and> ''access_token: '' @ tok
            \<in> set (log_messages (snd (snd
                  (download_files env ctx workflow file_names output_directory access_token w))))
        \<and> ''access_token: '' @ tok
            \<in> set (log_messages (snd (snd
                  (upload_files env ctx workflow filenames access_token w))))"
      using logged[of tr1] logged[of tr2] logged[of tr3] by simp
  qed
next
  show "(\<forall>r wf t t'. client_get_files env r wf t = client_get_files env r wf t')
        \<and> (\<forall>r wf f t t'. client_download_file env r wf f t = client_download_file env r wf f t')
        \<and> (\<forall>r wf f t t'.
              client_upload_to_server env r wf f t = client_upload_to_server env r wf f t')
        \<and> t1 \<noteq> [] \<and> t2 \<noteq> []
      \<longrightarrow> drop (Suc (length (params ctx1)))
            (log_messages (snd (snd
               (get_files env ctx1 workflow filter_cols output_format (Some t1) w))))
          = drop (Suc (length (params ctx2)))
              (log_messages (snd (snd
                 (get_files env ctx2 workflow filter_cols output_format (Some t2) w))))
        \<and> drop (Suc (length (params ctx1)))
            (log_messages (snd (snd
               (download_files env ctx1 workflow file_names output_directory (Some t1) w))))
          = drop (Suc (length (params ctx2)))
              (log_messages (snd (snd
                 (download_files env ctx2 workflow file_names output_directory (Some t2) w))))
        \<and> drop (Suc (length (params ctx1)))
            (log_messages (snd (snd (upload_files env ctx1 workflow filenames (Some t1) w))))
          = drop (Suc (length (params ctx2)))
              (log_messages (snd (snd (upload_files env ctx2 workflow filenames (Some t2) w))))"
  proof (intro impI)
    assume a: "(\<forall>r wf t t'. client_get_files env r wf t = client_get_files env r wf t')
        \<and> (\<forall>r wf f t t'. client_download_file env r wf f t = client_download_file env r wf f t')
        \<and> (\<forall>r wf f t t'.
              client_upload_to_server env r wf f t = client_upload_to_server env r wf f t')
        \<and> t1 \<noteq> [] \<and> t2 \<noteq> []"
    have listing: "client_get_files env r wf t = client_get_files env r wf t'" for r wf t t'
      using a by blast
    have fetching: "client_download_file env r wf f t = client_download_file env r wf f t'"
      for r wf f t t'
      using a by blast
    have sending: "client_upload_to_server env r wf f t = client_upload_to_server env r wf f t'"
      for r wf f t t'
      using a by blast
    have first: "t1 \<noteq> []" and second: "t2 \<noteq> []"
      using a by simp_all
    show "drop (Suc (length (params ctx1)))
            (log_messages (snd (snd
               (get_files env ctx1 workflow filter_cols output_format (Some t1) w))))
          = drop (Suc (length (params ctx2)))
              (log_messages (snd (snd
                 (get_files env ctx2 workflow filter_cols output_format (Some t2) w))))
        \<and> drop (Suc (length (params ctx1)))
            (log_messages (snd (snd
               (download_files env ctx1 workflow file_names output_directory (Some t1) w))))
          = drop (Suc (length (params ctx2)))
              (log_messages (snd (snd
                 (download_files env ctx2 workflow file_names output_directory (Some t2) w))))
        \<and> drop (Suc (length (params ctx1)))
            (log_messages (snd (snd (upload_files env ctx1 workflow filenames (Some t1) w))))
          = drop (Suc (length (params ctx2)))
              (log_messages (snd (snd (upload_files env ctx2 workflow filenames (Some t2) w))))"
      by (intro conjI)
         (rule get_files_blind[OF listing first second],
          rule download_files_blind[OF fetching first second],
          rule upload_files_blind[OF sending first second])
  qed
qed

text \<open>
  The example client does not look at the token. An upload of \<^verbatim>\<open>/data/bad.txt\<close> with the token
  \<^verbatim>\<open>secret\<close> logs \<^verbatim>\<open>access_token: secret\<close>, and after its parameters it logs what the same
  upload with the token \<^verbatim>\<open>other\<close> logs: the traceback and the text of the exception.
\<close>

theorem access_token_logged_with_parameters_only_witness:
  "(''access_token'', PyStr ''secret'')
     \<in> set (params (upload_ctx (Some ''wf'') [''/data/bad.txt''] (Some ''secret'')))
   \<and> (\<forall>r wf t t'. client_get_files example_env r wf t = client_get_files example_env r wf t')
   \<and> (\<forall>r wf f t t'.
         client_download_file example_env r wf f t = client_download_file example_env r wf f t')
   \<and> (\<forall>r wf f t t'. client_upload_to_server example_env r wf f t
                       = client_upload_to_server example_env r wf f t')
   \<and> ''secret'' \<noteq> [] \<and> ''other'' \<noteq> []
   \<and> ''access_token: secret''
       \<in> set (log_messages (snd (snd
             (upload_files example_env
                (upload_ctx (Some ''wf'') [''/data/bad.txt''] (Some ''secret''))
                (Some ''wf'') [''/data/bad.txt''] (Some ''secret'') example_world))))
   \<and> drop (Suc (length (params (upload_ctx (Some ''wf'') [''/data/bad.txt''] (Some ''secret'')))))
        (log_messages (snd (snd
           (upload_files example_env
              (upload_ctx (Some ''wf'') [''/data/bad.txt''] (Some ''secret''))
              (Some ''wf'') [''/data/bad.txt''] (Some ''secret'') example_world))))
      = drop (Suc (length (params (upload_ctx (Some ''wf'') [''/data/bad.txt''] (Some ''other'')))))
          (log_messages (snd (snd
             (upload_files example_env
                (upload_ctx (Some ''wf'') [''/data/bad.txt''] (Some ''other''))
                (Some ''wf'') [''/data/bad.txt''] (Some ''other'') example_world))))
   \<and> drop (Suc (length (params (upload_ctx (Some ''wf'') [''/data/bad.txt''] (Some ''other'')))))
        (log_messages (snd (snd
           (upload_files example_env
              (upload_ctx (Some ''wf'') [''/data/bad.txt''] (Some ''other''))
              (Some ''wf'') [''/data/bad.txt''] (Some ''other'') example_world))))
      = [''Traceback (most recent call last): rejected'', ''rejected'']"
proof -
  let ?ctx1 = "upload_ctx (Some ''wf'') [''/data/bad.txt''] (Some ''secret'')"
  let ?ctx2 = "upload_ctx (Some ''wf'') [''/data/bad.txt''] (Some ''other'')"
  have held: "(''access_token'', PyStr ''secret'') \<in> set (params ?ctx1)"
    by (simp add: upload_ctx_def py_opt_def)
  have listing: "\<forall>r wf t t'. client_get_files example_env r wf t
                               = client_get_files example_env r wf t'"
    by (simp add: example_env_def)
  have fetching: "\<forall>r wf f t t'. client_download_file example_env r wf f t
                                  = client_download_file example_env r wf f t'"
    by (simp add: example_env_def)
  have sending: "\<forall>r wf f t t'. client_upload_to_server example_env r wf f t
                                 = client_upload_to_server example_env r wf f t'"
    by (simp add: example_env_def)
  have first: "''secret'' \<noteq> []" and second: "''other'' \<noteq> []"
    by simp_all
  note all = access_token_logged_with_parameters_only[where env = example_env
      and w = example_world and ctx = ?ctx1 and ?ctx1.0 = ?ctx1 and ?ctx2.0 = ?ctx2
      and workflow = "Some ''wf''" and filenames = "[''/data/bad.txt'']"
      and access_token = "Some ''secret''" and ?t1.0 = "''secret''" and ?t2.0 = "''other''"]
  note logged = all[THEN conjunct1, rule_format, OF held, THEN conjunct2, THEN conjunct2]
  note alike = all[THEN conjunct2, rule_format,
      OF conjI[OF listing conjI[OF fetching conjI[OF sending conjI[OF first second]]]],
      THEN conjunct2, THEN conjunct2]
  have other: "drop (Suc (length (params ?ctx2)))
        (log_messages (snd (snd
           (upload_files example_env ?ctx2 (Some ''wf'') [''/data/bad.txt''] (Some ''other'')
              example_world))))
      = [''Traceback (most recent call last): rejected'', ''rejected'']"
    by (simp add: upload_files_def upload_one_def upload_try_def upload_except_def report_def
        log_invocation_def upload_ctx_def py_opt_def nonempty_def str_tuple_def
        example_env_def example_world_def)
  have named: "''access_token: secret''
       \<in> set (log_messages (snd (snd
             (upload_files example_env ?ctx1 (Some ''wf'') [''/data/bad.txt''] (Some ''secret'')
                example_world))))"
    using logged by simp
  show ?thesis
    by (intro conjI)
       (rule held, rule listing, rule fetching, rule sending, rule first, rule second,
        rule named, rule alike, rule other)
qed

end
